theory Spec2Isabelle
  imports Complex_Main "HOL-Library.Log_Nat"
begin

section \<open>Conventions of the embedding\<close>

text \<open>
  The C++ type \<^verbatim>\<open>double\<close> is modelled by the type \<open>double\<close> of the next section:
  the IEEE 754 binary64 values with correctly rounded arithmetic, signed zeros, the two
  infinities and not-a-number. The two leaf material-property models are the exception:
  they return an argument or a constant, or test a sum against zero, which on finite doubles
  rounds nowhere, and their scalars are reals. The C++ type \<^verbatim>\<open>int\<close> is modelled by
  \<^typ>\<open>int\<close> where the values are entity ids or counters bounded by the length of an
  array.

  A thrown exception is the left injection of a sum type; the right injection is the
  normal return.

  An identifier of the logic cannot end in an underscore, so a C++ member \<^verbatim>\<open>name_\<close>
  is written \<open>name\<close>, and a method that several classes define carries its class
  name in front.
\<close>

type_synonym Key = string

datatype error =
    ConfigurationError string
  | UnknownKeyError Key
  | NotImplementedError
  | OutOfBounds
  | NullPointer

section \<open>Double-precision numbers\<close>

text \<open>
  A double is a finite number, the negative zero, an infinity or not-a-number. \<open>Finite 0\<close>
  is the positive zero. The finite doubles are the reals \<open>m * 2 ^ e\<close> with integers
  \<open>\<bar>m\<bar> < 2 ^ 53\<close> and \<open>- 1074 \<le> e \<le> 971\<close>; the rounding below returns such a
  number when it returns a finite one, and so does every arithmetic operation.
  Not-a-number is a single value: payloads and signalling are not modelled.
\<close>

datatype double = Finite real | NegZero | PInf | MInf | NaN

text \<open>
  The powers of two, and the binary exponent \<open>\<lfloor>log\<^sub>2 \<bar>x\<bar>\<rfloor>\<close> of a real other than zero,
  computed from the number of bits of an integer.
\<close>

definition pow2 :: "int \<Rightarrow> real" where
  "pow2 e = (if 0 \<le> e then 2 ^ nat e else 1 / 2 ^ nat (- e))"

definition ilog2 :: "real \<Rightarrow> int" where
  "ilog2 x = (if 1 \<le> \<bar>x\<bar> then bitlen \<lfloor>\<bar>x\<bar>\<rfloor> - 1 else - bitlen (\<lceil>1 / \<bar>x\<bar>\<rceil> - 1))"

text \<open>Rounding to the nearest integer, a tie to the even one.\<close>

definition rne :: "real \<Rightarrow> int" where
  "rne x = (let f = \<lfloor>x\<rfloor>; r = x - of_int f in
            if r < 1 / 2 then f else if 1 / 2 < r then f + 1
            else if even f then f else f + 1)"

text \<open>
  Rounding a real to a double, in the mode round-to-nearest-even. The spacing of the
  doubles around \<open>x\<close> is \<open>2 ^ (e - 52)\<close> for the binary exponent \<open>e\<close> of \<open>x\<close>, and
  \<open>2 ^ - 1074\<close> below \<open>2 ^ - 1022\<close> (gradual underflow). A result of magnitude \<open>2 ^ 1024\<close>
  overflows to the infinity of the sign; a result zero keeps the sign of \<open>x\<close>.
\<close>

definition to_double :: "real \<Rightarrow> double" where
  "to_double x =
     (let q = pow2 (max (ilog2 x) (- 1022) - 52);
          y = of_int (rne (x / q)) * q in
      if pow2 1024 \<le> \<bar>y\<bar> then (if 0 < x then PInf else MInf)
      else if y = 0 then (if x < 0 then NegZero else Finite 0)
      else Finite y)"

fun finite_val :: "double \<Rightarrow> real option" where
  "finite_val (Finite x) = Some x"
| "finite_val NegZero = Some 0"
| "finite_val PInf = None"
| "finite_val MInf = None"
| "finite_val NaN = None"

fun signbit :: "double \<Rightarrow> bool" where
  "signbit (Finite x) = (x < 0)"
| "signbit NegZero = True"
| "signbit PInf = False"
| "signbit MInf = True"
| "signbit NaN = False"

definition signed_zero :: "bool \<Rightarrow> double" where
  "signed_zero s = (if s then NegZero else Finite 0)"

definition signed_inf :: "bool \<Rightarrow> double" where
  "signed_inf s = (if s then MInf else PInf)"

text \<open>
  The arithmetic operators of C++ on doubles: the exact result, rounded. An exact zero
  result has the sign the standard gives it; the invalid operations (\<open>0 * \<infinity>\<close>,
  \<open>\<infinity> - \<infinity>\<close>, \<open>0 / 0\<close>, \<open>\<infinity> / \<infinity>\<close>) and every operation on not-a-number give
  not-a-number; a finite number other than zero divided by a zero gives an infinity.
\<close>

definition dadd :: "double \<Rightarrow> double \<Rightarrow> double" where
  "dadd a b =
     (if a = NaN \<or> b = NaN then NaN
      else case (finite_val a, finite_val b) of
        (Some x, Some y) \<Rightarrow>
          if x + y = 0 then signed_zero (signbit a \<and> signbit b) else to_double (x + y)
      | (Some x, None) \<Rightarrow> b
      | (None, Some y) \<Rightarrow> a
      | (None, None) \<Rightarrow> if a = b then a else NaN)"

fun dneg :: "double \<Rightarrow> double" where
  "dneg (Finite x) = (if x = 0 then NegZero else Finite (- x))"
| "dneg NegZero = Finite 0"
| "dneg PInf = MInf"
| "dneg MInf = PInf"
| "dneg NaN = NaN"

definition dsub :: "double \<Rightarrow> double \<Rightarrow> double" where
  "dsub a b = dadd a (dneg b)"

definition dmul :: "double \<Rightarrow> double \<Rightarrow> double" where
  "dmul a b =
     (if a = NaN \<or> b = NaN then NaN
      else case (finite_val a, finite_val b) of
        (Some x, Some y) \<Rightarrow>
          if x * y = 0 then signed_zero (signbit a \<noteq> signbit b) else to_double (x * y)
      | (Some x, None) \<Rightarrow> if x = 0 then NaN else signed_inf (signbit a \<noteq> signbit b)
      | (None, Some y) \<Rightarrow> if y = 0 then NaN else signed_inf (signbit a \<noteq> signbit b)
      | (None, None) \<Rightarrow> signed_inf (signbit a \<noteq> signbit b))"

definition ddiv :: "double \<Rightarrow> double \<Rightarrow> double" where
  "ddiv a b =
     (if a = NaN \<or> b = NaN then NaN
      else case (finite_val a, finite_val b) of
        (Some x, Some y) \<Rightarrow>
          if y = 0 then (if x = 0 then NaN else signed_inf (signbit a \<noteq> signbit b))
          else if x = 0 then signed_zero (signbit a \<noteq> signbit b)
          else to_double (x / y)
      | (Some x, None) \<Rightarrow> signed_zero (signbit a \<noteq> signbit b)
      | (None, Some y) \<Rightarrow> signed_inf (signbit a \<noteq> signbit b)
      | (None, None) \<Rightarrow> NaN)"

fun dabs :: "double \<Rightarrow> double" where
  \<comment> \<open>\<^verbatim>\<open>std::abs\<close>\<close>
  "dabs (Finite x) = Finite \<bar>x\<bar>"
| "dabs NegZero = Finite 0"
| "dabs PInf = PInf"
| "dabs MInf = PInf"
| "dabs NaN = NaN"

text \<open>
  The comparisons \<^verbatim>\<open><\<close> and \<^verbatim>\<open><=\<close>: false when an operand is not-a-number; the two
  zeros are equal.
\<close>

definition dless :: "double \<Rightarrow> double \<Rightarrow> bool" where
  "dless a b =
     (case (finite_val a, finite_val b) of
        (Some x, Some y) \<Rightarrow> x < y
      | (Some x, None) \<Rightarrow> b = PInf
      | (None, Some y) \<Rightarrow> a = MInf
      | (None, None) \<Rightarrow> a = MInf \<and> b = PInf)"

definition dleq :: "double \<Rightarrow> double \<Rightarrow> bool" where
  "dleq a b =
     (case (finite_val a, finite_val b) of
        (Some x, Some y) \<Rightarrow> x \<le> y
      | (Some x, None) \<Rightarrow> b = PInf
      | (None, Some y) \<Rightarrow> a = MInf
      | (None, None) \<Rightarrow> a \<noteq> NaN \<and> b \<noteq> NaN \<and> (a = MInf \<or> b = PInf))"

definition double_of_int :: "int \<Rightarrow> double" where
  \<comment> \<open>The conversion of an \<^verbatim>\<open>int\<close> operand to \<^verbatim>\<open>double\<close>.\<close>
  "double_of_int n = to_double (of_int n)"

text \<open>
  The reals whose binary exponent lies between \<open>- 1021\<close> and \<open>1022\<close>: they and their
  halves round to normal doubles, without underflow or overflow.
\<close>

definition normal_range :: "real \<Rightarrow> bool" where
  "normal_range z = (pow2 (- 1021) \<le> \<bar>z\<bar> \<and> \<bar>z\<bar> < pow2 1023)"

text \<open>
  The entries \<open>x\<close> whose product with the finite double \<open>r\<close> is formed without
  underflow or overflow: \<open>x\<close> is a zero, an infinity or not-a-number, or the exact
  product is in the range above.
\<close>

definition product_in_range :: "double \<Rightarrow> double \<Rightarrow> bool" where
  "product_in_range r x =
     (case r of
        Finite \<rho> \<Rightarrow> (case x of Finite v \<Rightarrow> v = 0 \<or> normal_range (\<rho> * v) | _ \<Rightarrow> True)
      | _ \<Rightarrow> False)"

section \<open>Leaf material-property models\<close>

subsection \<open>\<^verbatim>\<open>WRMLinearRelPerm\<close> (wrm_linear_relperm.hh)\<close>

definition k_relative :: "real \<Rightarrow> real" where
  "k_relative s = s"

definition d_k_relative :: "real \<Rightarrow> real" where
  "d_k_relative s = 1.0"

subsection \<open>\<^verbatim>\<open>MDM_Bear\<close> (MDM_Bear.hh)\<close>

record MDM_Bear =
  alphaL :: real
  alphaT :: real

definition is_valid :: "MDM_Bear \<Rightarrow> bool" where
  "is_valid m = (alphaL m + alphaT m \<noteq> 0.0)"

section \<open>Fields and the State registry\<close>

text \<open>
  A Field (\<^verbatim>\<open>CompositeVector\<close>) is a collection of named components, each a dense
  array of scalars indexed by the local entity id. The evaluators below only touch the first
  vector of a component (\<^verbatim>\<open>[0][i]\<close>), so a component is a list of doubles.
\<close>

type_synonym Epetra_MultiVector = "double list"

type_synonym CompositeVector = "string \<rightharpoonup> Epetra_MultiVector"

text \<open>
  A mesh is known here by the faces of each cell, the only thing the code below asks it.

  The registry. \<open>updates\<close> is a history variable: the keys whose evaluator has run its
  recomputation, oldest first. It lets a theorem say that no recomputation took place,
  which the Field values alone cannot (a recomputation may write the same values).
\<close>

record Mesh =
  cell_faces :: "int list list"

record State =
  field_data :: "Key \<rightharpoonup> CompositeVector"
  time :: double
  meshes :: "Key \<rightharpoonup> Mesh"
  updates :: "Key list"

definition and_then :: "error + 'a \<Rightarrow> ('a \<Rightarrow> error + 'b) \<Rightarrow> error + 'b" where
  "and_then r f = (case r of Inl e \<Rightarrow> Inl e | Inr x \<Rightarrow> f x)"

definition GetFieldData :: "State \<Rightarrow> Key \<Rightarrow> error + CompositeVector" where
  \<comment> \<open>Modelled from the spec: \<^verbatim>\<open>State::GetFieldData\<close> is not part of the sources;
      \<^verbatim>\<open>getData(key)\<close> fails with \<^verbatim>\<open>UnknownKeyError\<close> if the key was never required.\<close>
  "GetFieldData S key =
     (case field_data S key of None \<Rightarrow> Inl (UnknownKeyError key) | Some v \<Rightarrow> Inr v)"

definition ViewComponent :: "CompositeVector \<Rightarrow> string \<Rightarrow> error + Epetra_MultiVector" where
  \<comment> \<open>Modelled from the spec: \<^verbatim>\<open>CompositeVector::ViewComponent\<close> is not part of the
      sources; a Field has a fixed collection of named components, and a name outside it is
      treated like an unknown key.\<close>
  "ViewComponent v component =
     (case v component of None \<Rightarrow> Inl (UnknownKeyError component) | Some c \<Rightarrow> Inr c)"

definition GetMesh :: "State \<Rightarrow> Key \<Rightarrow> error + Mesh" where
  \<comment> \<open>Modelled from the spec: \<^verbatim>\<open>State::GetMesh\<close> is not part of the sources; a key
      that was never registered is an \<^verbatim>\<open>UnknownKeyError\<close>.\<close>
  "GetMesh S key =
     (case meshes S key of None \<Rightarrow> Inl (UnknownKeyError key) | Some m \<Rightarrow> Inr m)"

definition element :: "'a list \<Rightarrow> int \<Rightarrow> error + 'a" where
  \<comment> \<open>An unchecked C++ read \<^verbatim>\<open>v[i]\<close>. Out of range it is undefined behaviour,
      which the model surfaces as \<open>OutOfBounds\<close>.\<close>
  "element v i = (if 0 \<le> i \<and> i < int (length v) then Inr (v ! nat i) else Inl OutOfBounds)"

section \<open>Secondary-variable evaluators\<close>

text \<open>
  The base class. \<open>requests\<close> is the bookkeeping of the change tracker: the consumers
  that have asked this evaluator before.
\<close>

record SecondaryVariableFieldEvaluator =
  my_key :: Key
  dependencies :: "Key list"
  requests :: "Key list"

definition SecondaryVariableFieldEvaluator_UpdateField ::
  "(State \<Rightarrow> CompositeVector \<Rightarrow> error + CompositeVector) \<Rightarrow> Key \<Rightarrow> State \<Rightarrow> error + State"
where
  \<comment> \<open>Modelled from the spec: the base class is not part of the sources; an evaluator
      recomputes its output via \<^verbatim>\<open>evaluate_(state, outputField)\<close>. The virtual
      \<^verbatim>\<open>EvaluateField_\<close> of the derived class is the first argument.\<close>
  "SecondaryVariableFieldEvaluator_UpdateField evaluate key S =
     and_then (GetFieldData S key) (\<lambda>old.
     and_then (evaluate S old) (\<lambda>new.
       Inr (S\<lparr>field_data := (field_data S)(key \<mapsto> new), updates := updates S @ [key]\<rparr>)))"

definition SecondaryVariableFieldEvaluator_HasFieldChanged ::
  "(State \<Rightarrow> error + State) \<Rightarrow> 'a SecondaryVariableFieldEvaluator_scheme \<Rightarrow> State \<Rightarrow> Key
     \<Rightarrow> (Key \<Rightarrow> Key \<Rightarrow> bool)
     \<Rightarrow> error + bool \<times> 'a SecondaryVariableFieldEvaluator_scheme \<times> State"
where
  \<comment> \<open>Modelled from the spec: the base class is not part of the sources. A Secondary
      evaluator first asks every dependency evaluator the same question, using its own
      internal consumer identity; if any dependency reports changed, or if this is the first
      request ever for this consumer, it recomputes its output and marks itself changed;
      otherwise it reports unchanged and performs no recomputation. The answer of the
      evaluator of a dependency to a consumer is the argument \<open>dep_changed\<close>, the
      evaluator's own identity is its key, the virtual \<^verbatim>\<open>UpdateField_\<close> is the first
      argument, and a consumer that has been answered is entered in \<open>requests\<close>.\<close>
  "SecondaryVariableFieldEvaluator_HasFieldChanged update ev S request dep_changed =
     (if list_ex (\<lambda>dep. dep_changed dep (my_key ev)) (dependencies ev) \<or>
         request \<notin> set (requests ev)
      then and_then (update S) (\<lambda>S'.
             Inr (True, ev\<lparr>requests := List.insert request (requests ev)\<rparr>, S'))
      else Inr (False, ev, S))"

subsection \<open>\<^verbatim>\<open>ThermalConductivityTwoPhaseEvaluator\<close>\<close>

record ThermalConductivityTwoPhaseEvaluator = SecondaryVariableFieldEvaluator +
  poro_key :: Key
  sat_key :: Key
  tc :: "double \<Rightarrow> double \<Rightarrow> double"

definition ThermalConductivityTwoPhaseEvaluator_EvaluateFieldPartialDerivative ::
  "ThermalConductivityTwoPhaseEvaluator \<Rightarrow> State \<Rightarrow> Key \<Rightarrow> CompositeVector \<Rightarrow> error + CompositeVector"
where
  \<comment> \<open>\<^verbatim>\<open>ASSERT(0); // not implemented, not yet needed\<close>\<close>
  "ThermalConductivityTwoPhaseEvaluator_EvaluateFieldPartialDerivative ev S wrt_key result =
     Inl NotImplementedError"

subsection \<open>\<^verbatim>\<open>ActiveLayerAverageTempEvaluator\<close>\<close>

record ActiveLayerAverageTempEvaluator = SecondaryVariableFieldEvaluator +
  temp_key :: Key
  trans_width :: double
  updated_once :: bool

text \<open>
  \<^verbatim>\<open>double trans_temp = 273.15 + 0.5*trans_width_;\<close> The literal \<^verbatim>\<open>273.15\<close> is the
  double nearest to that decimal; \<^verbatim>\<open>0.5\<close> is a double as it stands.
\<close>

definition trans_temp :: "ActiveLayerAverageTempEvaluator \<Rightarrow> double" where
  "trans_temp ev = dadd (to_double 273.15) (dmul (Finite 0.5) (trans_width ev))"

text \<open>
  The loop over the cells of the column, from cell \<open>0\<close> upwards, with its two
  accumulators \<^verbatim>\<open>temp_sum\<close> and \<^verbatim>\<open>count\<close>. The test
  \<^verbatim>\<open>temp_c[0][i] >= trans_temp\<close> is \<open>dleq\<close> with the operands exchanged. The counter
  stays below the number of cells, which is an \<^verbatim>\<open>int\<close>, so it does not wrap.
\<close>

fun EvaluateField_loop ::
  "double \<Rightarrow> Epetra_MultiVector \<Rightarrow> double \<times> int \<Rightarrow> double \<times> int"
where
  "EvaluateField_loop tt [] (temp_sum, count) = (temp_sum, count)"
| "EvaluateField_loop tt (t # ts) (temp_sum, count) =
     (if dleq tt t
      then EvaluateField_loop tt ts (dadd temp_sum t, count + 1)
      else EvaluateField_loop tt ts (temp_sum, count))"

text \<open>
  The write \<^verbatim>\<open>res_c[0][0] = ...\<close> into a component without cells is undefined
  behaviour in C++; the model makes it the error \<open>OutOfBounds\<close>. In
  \<^verbatim>\<open>temp_sum/count\<close> the counter is converted to a double.
\<close>

definition ActiveLayerAverageTempEvaluator_EvaluateField ::
  "ActiveLayerAverageTempEvaluator \<Rightarrow> State \<Rightarrow> CompositeVector \<Rightarrow> error + CompositeVector"
where
  "ActiveLayerAverageTempEvaluator_EvaluateField ev S result =
     and_then (ViewComponent result ''cell'') (\<lambda>res_c.
     and_then (GetFieldData S (temp_key ev)) (\<lambda>temp.
     and_then (ViewComponent temp ''cell'') (\<lambda>temp_c.
       (case EvaluateField_loop (trans_temp ev) temp_c (Finite 0, 0) of (temp_sum, count) \<Rightarrow>
          if res_c = [] then Inl OutOfBounds
          else Inr (result(''cell'' \<mapsto>
                 res_c[0 := (if count > 0 then ddiv temp_sum (double_of_int count)
                             else Finite 0)]))))))"

definition ActiveLayerAverageTempEvaluator_EvaluateFieldPartialDerivative ::
  "ActiveLayerAverageTempEvaluator \<Rightarrow> State \<Rightarrow> Key \<Rightarrow> CompositeVector \<Rightarrow> error + CompositeVector"
where
  \<comment> \<open>The body is empty: the call returns and \<open>result\<close> is what it was.\<close>
  "ActiveLayerAverageTempEvaluator_EvaluateFieldPartialDerivative ev S wrt_key result =
     Inr result"

definition ActiveLayerAverageTempEvaluator_UpdateField ::
  "ActiveLayerAverageTempEvaluator \<Rightarrow> State \<Rightarrow> error + State"
where
  "ActiveLayerAverageTempEvaluator_UpdateField ev S =
     SecondaryVariableFieldEvaluator_UpdateField
       (ActiveLayerAverageTempEvaluator_EvaluateField ev) (my_key ev) S"

definition ActiveLayerAverageTempEvaluator_HasFieldChanged ::
  "ActiveLayerAverageTempEvaluator \<Rightarrow> State \<Rightarrow> Key \<Rightarrow> (Key \<Rightarrow> Key \<Rightarrow> bool)
     \<Rightarrow> error + bool \<times> ActiveLayerAverageTempEvaluator \<times> State"
where
  "ActiveLayerAverageTempEvaluator_HasFieldChanged ev S request dep_changed =
     and_then (SecondaryVariableFieldEvaluator_HasFieldChanged
                 (ActiveLayerAverageTempEvaluator_UpdateField ev) ev
                 S request dep_changed) (\<lambda>(changed, ev1, S1).
       if \<not> updated_once ev1
       then and_then (ActiveLayerAverageTempEvaluator_UpdateField ev1 S1) (\<lambda>S2.
              Inr (True, ev1\<lparr>updated_once := True\<rparr>, S2))
       else Inr (changed, ev1, S1))"

text \<open>
  What a recomputation of the column average needs in the registry: the temperature Field
  and the evaluator's own Field, each with a \<open>cell\<close> component, the latter with at
  least one cell.
\<close>

definition column_ready :: "ActiveLayerAverageTempEvaluator \<Rightarrow> State \<Rightarrow> bool" where
  "column_ready ev S =
     (case field_data S (temp_key ev) of None \<Rightarrow> False | Some temp \<Rightarrow>
      case temp ''cell'' of None \<Rightarrow> False | Some temp_c \<Rightarrow>
      case field_data S (my_key ev) of None \<Rightarrow> False | Some own \<Rightarrow>
      case own ''cell'' of None \<Rightarrow> False | Some res_c \<Rightarrow> res_c \<noteq> [])"

section \<open>Configuration: parameter lists\<close>

text \<open>
  \<^verbatim>\<open>Teuchos::ParameterList\<close> is a library type. An entry is a typed value or a
  sublist. \<^verbatim>\<open>get<T>(name)\<close> throws when the name is missing or holds another type;
  \<^verbatim>\<open>get<T>(name, default)\<close> returns the default when the name is missing;
  \<^verbatim>\<open>isParameter\<close> asks for any entry and \<^verbatim>\<open>isSublist\<close> for a sublist entry;
  \<^verbatim>\<open>sublist(name)\<close> returns the sublist, an empty one when the name is missing, and
  throws when the entry is no sublist. These exceptions are the configuration errors of the
  specification; the model gives them the name of the entry. The insertions that
  \<^verbatim>\<open>get\<close> with a default and \<^verbatim>\<open>sublist\<close> make into the list are not modelled:
  the code below never asks again for a name it has read in this way.
\<close>

datatype ParameterEntry =
    PBool bool
  | PInt int
  | PString string
  | PIntArray "int list"
  | PList "(string \<times> ParameterEntry) list"

type_synonym ParameterList = "(string \<times> ParameterEntry) list"

definition isParameter :: "ParameterList \<Rightarrow> string \<Rightarrow> bool" where
  "isParameter pl nm = (map_of pl nm \<noteq> None)"

definition isSublist :: "ParameterList \<Rightarrow> string \<Rightarrow> bool" where
  "isSublist pl nm = (case map_of pl nm of Some (PList l) \<Rightarrow> True | _ \<Rightarrow> False)"

definition get_bool_default :: "ParameterList \<Rightarrow> string \<Rightarrow> bool \<Rightarrow> error + bool" where
  "get_bool_default pl nm d =
     (case map_of pl nm of
        None \<Rightarrow> Inr d
      | Some (PBool b) \<Rightarrow> Inr b
      | Some _ \<Rightarrow> Inl (ConfigurationError nm))"

definition get_string :: "ParameterList \<Rightarrow> string \<Rightarrow> error + string" where
  "get_string pl nm =
     (case map_of pl nm of
        Some (PString x) \<Rightarrow> Inr x
      | _ \<Rightarrow> Inl (ConfigurationError nm))"

definition get_IntArray :: "ParameterList \<Rightarrow> string \<Rightarrow> error + int list" where
  "get_IntArray pl nm =
     (case map_of pl nm of
        Some (PIntArray x) \<Rightarrow> Inr x
      | _ \<Rightarrow> Inl (ConfigurationError nm))"

definition get_sublist :: "ParameterList \<Rightarrow> string \<Rightarrow> error + ParameterList" where
  "get_sublist pl nm =
     (case map_of pl nm of
        None \<Rightarrow> Inr []
      | Some (PList l) \<Rightarrow> Inr l
      | Some _ \<Rightarrow> Inl (ConfigurationError nm))"

fun set_entry :: "ParameterList \<Rightarrow> string \<Rightarrow> ParameterEntry \<Rightarrow> ParameterList" where
  "set_entry [] nm v = [(nm, v)]"
| "set_entry ((k, w) # pl) nm v =
     (if k = nm then (k, v) # pl else (k, w) # set_entry pl nm v)"

section \<open>The coupled preconditioner assembler (mpc_coupled_cells.cc)\<close>

subsection \<open>Collaborators\<close>

text \<open>
  The verbosity levels of Teuchos and its test \<^verbatim>\<open>includesVerbLevel\<close>, which the
  library defines as: the level is at least the requested one, or it is the default level
  and the caller counts the default in.
\<close>

datatype EVerbosityLevel =
  VERB_DEFAULT | VERB_NONE | VERB_LOW | VERB_MEDIUM | VERB_HIGH | VERB_EXTREME

fun as_int :: "EVerbosityLevel \<Rightarrow> int" where
  "as_int VERB_DEFAULT = - 1"
| "as_int VERB_NONE = 0"
| "as_int VERB_LOW = 1"
| "as_int VERB_MEDIUM = 2"
| "as_int VERB_HIGH = 3"
| "as_int VERB_EXTREME = 4"

definition includesVerbLevel :: "EVerbosityLevel \<Rightarrow> EVerbosityLevel \<Rightarrow> bool \<Rightarrow> bool" where
  "includesVerbLevel verbLevel requestedVerbLevel isDefaultLevel =
     (as_int verbLevel \<ge> as_int requestedVerbLevel \<or>
      (verbLevel = VERB_DEFAULT \<and> isDefaultLevel))"

text \<open>
  A verbose object is known by what it was constructed from: the mesh whose communicator
  it uses, a name and a parameter list. The coupled matrix likewise. The linear operator
  that applies the preconditioner is either a solver created around the coupled matrix or
  the coupled matrix itself (the same object under a second pointer).
\<close>

datatype VerboseObject = VerboseObject "Mesh option" string ParameterList

record MatrixMFD_Coupled =
  pc_plist :: ParameterList
  pc_mesh :: "Mesh option"

datatype LinearOperator =
    CoupledSolver ParameterList MatrixMFD_Coupled
  | TheCoupledMatrix

text \<open>
  A vector over both sub-systems: \<^verbatim>\<open>u->SubVector(i)->Data()\<close> is the \<open>i\<close>-th Field.
\<close>

type_synonym TreeVector = "CompositeVector list"

text \<open>
  The base class \<^verbatim>\<open>StrongMPC\<close>, the coupled matrix, the solver factory and the
  evaluators behind the State are not part of the sources. Each call into them is
  recorded, in order, with its arguments. What such a call does to the State, or what
  vector it returns, is an argument of the function that makes the call.
\<close>

datatype event =
    E_StrongMPC_setup
  | E_GetMesh Key
  | E_New_MatrixMFD_Coupled ParameterList "Mesh option"
  | E_SetSubBlocks nat nat
  | E_SymbolicAssembleGlobalMatrices
  | E_InitPreconditioner
  | E_LinearOperatorFactory_Create string ParameterList
  | E_StrongMPC_update_precon double TreeVector double
  | E_HasFieldDerivativeChanged Key string Key
  | E_GetFieldData Key
  | E_SetOffDiagonals Epetra_MultiVector Epetra_MultiVector
  | E_ComputeSchurComplement bool
  | E_UpdatePreconditioner
  | E_StrongMPC_precon TreeVector
  | E_ApplyInverse TreeVector

datatype log_line =
    Text string
  | Val string int double

subsection \<open>The object\<close>

text \<open>
  The members the code reads or writes. \<open>out\<close> says that the stream pointer
  \<^verbatim>\<open>out_\<close> is not null; \<open>sub_pks\<close> holds the preconditioner of each sub-PK, by
  handle. \<open>trace\<close> and \<open>printed\<close> are history variables: the calls into the
  collaborators and the lines written to the output streams, oldest first.
\<close>

record MPCCoupledCells =
  plist :: ParameterList
  name :: string
  vo :: VerboseObject
  out :: bool
  verbosity :: EVerbosityLevel
  sub_pks :: "nat list"
  S_next :: State
  decoupled :: bool
  A_key :: Key
  B_key :: Key
  y1_key :: Key
  y2_key :: Key
  dA_dy2_key :: Key
  dB_dy1_key :: Key
  mesh :: "Mesh option"
  dc :: "int list"
  dcvo :: "VerboseObject list"
  mfd_preconditioner :: "MatrixMFD_Coupled option"
  linsolve_preconditioner :: "LinearOperator option"
  trace :: "event list"
  printed :: "log_line list"

text \<open>
  A method is a function from the object to a result and the object as the method leaves
  it; after a throw the object is what it was at the throw.
\<close>

type_synonym 'a prog = "MPCCoupledCells \<Rightarrow> (error + 'a) \<times> MPCCoupledCells"

definition returns :: "'a \<Rightarrow> 'a prog" where
  "returns x pk = (Inr x, pk)"

definition throw :: "error \<Rightarrow> 'a prog" where
  "throw e pk = (Inl e, pk)"

definition attempt :: "error + 'a \<Rightarrow> 'a prog" where
  "attempt r pk = (r, pk)"

definition then_run :: "'a prog \<Rightarrow> ('a \<Rightarrow> 'b prog) \<Rightarrow> 'b prog" where
  "then_run m f pk =
     (case m pk of (Inl e, pk') \<Rightarrow> (Inl e, pk') | (Inr x, pk') \<Rightarrow> f x pk')"

definition assign :: "(MPCCoupledCells \<Rightarrow> MPCCoupledCells) \<Rightarrow> unit prog" where
  "assign f pk = (Inr (), f pk)"

definition emit :: "event \<Rightarrow> unit prog" where
  "emit e pk = (Inr (), pk\<lparr>trace := trace pk @ [e]\<rparr>)"

definition print :: "log_line \<Rightarrow> unit prog" where
  "print l pk = (Inr (), pk\<lparr>printed := printed pk @ [l]\<rparr>)"

definition from_plist :: "(ParameterList \<Rightarrow> error + 'a) \<Rightarrow> 'a prog" where
  "from_plist f pk = (f (plist pk), pk)"

definition pc_call :: "event \<Rightarrow> unit prog" where
  \<comment> \<open>A call through the pointer \<^verbatim>\<open>mfd_preconditioner_\<close>.\<close>
  "pc_call e pk =
     (case mfd_preconditioner pk of None \<Rightarrow> (Inl NullPointer, pk) | Some m \<Rightarrow> emit e pk)"

text \<open>The calls a method makes when started from \<open>pk\<close>.\<close>

definition calls_of :: "'a prog \<Rightarrow> MPCCoupledCells \<Rightarrow> event list" where
  "calls_of m pk = drop (length (trace pk)) (trace (snd (m pk)))"

subsection \<open>\<^verbatim>\<open>MPCCoupledCells::setup\<close>\<close>

definition resize :: "'a list \<Rightarrow> nat \<Rightarrow> 'a \<Rightarrow> 'a list" where
  \<comment> \<open>\<^verbatim>\<open>std::vector::resize(n, x)\<close>\<close>
  "resize v n x = take n v @ replicate (n - length v) x"

text \<open>The loop over the debug cell ranks: one verbose object per rank.\<close>

fun make_dcvo :: "int list \<Rightarrow> unit prog" where
  "make_dcvo [] = returns ()"
| "make_dcvo (dcr # rest) =
     then_run (from_plist (\<lambda>pl. get_sublist pl ''VerboseObject'')) (\<lambda>vo_sub.
     then_run (assign (\<lambda>pk. pk\<lparr>dcvo := dcvo pk @
                 [VerboseObject (mesh pk) (name pk)
                    [(''VerboseObject'',
                      PList (set_entry vo_sub ''write on rank'' (PInt dcr)))]]\<rparr>)) (\<lambda>_.
     make_dcvo rest))"

definition setup_debug_cells :: "unit prog" where
  "setup_debug_cells pk =
     (if isParameter (plist pk) ''debug cells'' then
        then_run (assign (\<lambda>pk. pk\<lparr>dc := []\<rparr>)) (\<lambda>_.
        then_run (from_plist (\<lambda>pl. get_IntArray pl ''debug cells'')) (\<lambda>cells.
        then_run (assign (\<lambda>pk. pk\<lparr>dc := dc pk @ cells\<rparr>)) (\<lambda>_ pk.
          if isParameter (plist pk) ''debug cell ranks'' then
            then_run (from_plist (\<lambda>pl. get_IntArray pl ''debug cell ranks'')) (\<lambda>dc_ranks.
              if length cells \<noteq> length dc_ranks
              then throw (ConfigurationError
                     ''Debug cell and debug cell ranks must be equal length.'')
              else make_dcvo dc_ranks) pk
          else assign (\<lambda>pk. pk\<lparr>dcvo := resize (dcvo pk) (length (dc pk)) (vo pk)\<rparr>) pk))) pk
      else returns () pk)"

definition setup_keys :: "State \<Rightarrow> unit prog" where
  \<comment> \<open>The first block of \<^verbatim>\<open>setup\<close>: the mode, the keys and the mesh.\<close>
  "setup_keys S =
     then_run (from_plist (\<lambda>pl. get_bool_default pl ''decoupled'' False)) (\<lambda>d.
     then_run (assign (\<lambda>pk. pk\<lparr>decoupled := d\<rparr>)) (\<lambda>_.
     then_run (from_plist (\<lambda>pl. get_string pl ''conserved quantity A'')) (\<lambda>a.
     then_run (assign (\<lambda>pk. pk\<lparr>A_key := a\<rparr>)) (\<lambda>_.
     then_run (from_plist (\<lambda>pl. get_string pl ''conserved quantity B'')) (\<lambda>b.
     then_run (assign (\<lambda>pk. pk\<lparr>B_key := b\<rparr>)) (\<lambda>_.
     then_run (from_plist (\<lambda>pl. get_string pl ''primary variable A'')) (\<lambda>x1.
     then_run (assign (\<lambda>pk. pk\<lparr>y1_key := x1\<rparr>)) (\<lambda>_.
     then_run (from_plist (\<lambda>pl. get_string pl ''primary variable B'')) (\<lambda>x2.
     then_run (assign (\<lambda>pk. pk\<lparr>y2_key := x2\<rparr>)) (\<lambda>_.
     then_run (assign (\<lambda>pk. pk\<lparr>dA_dy2_key := ''d'' @ A_key pk @ ''_d'' @ y2_key pk\<rparr>)) (\<lambda>_.
     then_run (assign (\<lambda>pk. pk\<lparr>dB_dy1_key := ''d'' @ B_key pk @ ''_d'' @ y1_key pk\<rparr>)) (\<lambda>_.
     then_run (from_plist (\<lambda>pl. get_string pl ''mesh key'')) (\<lambda>mesh_key.
     then_run (emit (E_GetMesh mesh_key)) (\<lambda>_.
     then_run (attempt (GetMesh S mesh_key)) (\<lambda>m.
     assign (\<lambda>pk. pk\<lparr>mesh := Some m\<rparr>))))))))))))))))"

definition setup_preconditioner :: "unit prog" where
  \<comment> \<open>The last block of \<^verbatim>\<open>setup\<close>: the coupled matrix and the linear operator.\<close>
  "setup_preconditioner =
     then_run (from_plist (\<lambda>pl. get_sublist pl ''Coupled PC'')) (\<lambda>pc_sublist.
     then_run (\<lambda>pk. emit (E_New_MatrixMFD_Coupled pc_sublist (mesh pk)) pk) (\<lambda>_.
     then_run (assign (\<lambda>pk. pk\<lparr>mfd_preconditioner :=
                 Some \<lparr>pc_plist = pc_sublist, pc_mesh = mesh pk\<rparr>\<rparr>)) (\<lambda>_.
     then_run (\<lambda>pk. attempt (element (sub_pks pk) 0) pk) (\<lambda>pcA.
     then_run (\<lambda>pk. attempt (element (sub_pks pk) 1) pk) (\<lambda>pcB.
     then_run (pc_call (E_SetSubBlocks pcA pcB)) (\<lambda>_.
     then_run (pc_call E_SymbolicAssembleGlobalMatrices) (\<lambda>_.
     then_run (pc_call E_InitPreconditioner) (\<lambda>_ pk.
       if isSublist (plist pk) ''Coupled Solver'' then
         then_run (from_plist (\<lambda>pl. get_sublist pl ''Coupled Solver'')) (\<lambda>linsolve_sublist.
         then_run (emit (E_LinearOperatorFactory_Create ''coupled solver'' linsolve_sublist)) (\<lambda>_.
           assign (\<lambda>pk. pk\<lparr>linsolve_preconditioner :=
             Some (CoupledSolver linsolve_sublist
                     \<lparr>pc_plist = pc_sublist, pc_mesh = mesh pk\<rparr>)\<rparr>))) pk
       else assign (\<lambda>pk. pk\<lparr>linsolve_preconditioner := Some TheCoupledMatrix\<rparr>) pk
     ))))))))"

definition MPCCoupledCells_setup :: "State \<Rightarrow> unit prog" where
  "MPCCoupledCells_setup S =
     then_run (emit E_StrongMPC_setup) (\<lambda>_.
     then_run (setup_keys S) (\<lambda>_.
     then_run setup_debug_cells (\<lambda>_.
     setup_preconditioner)))"

subsection \<open>\<^verbatim>\<open>MPCCoupledCells::update_precon\<close>\<close>

definition Scale :: "double \<Rightarrow> Epetra_MultiVector \<Rightarrow> Epetra_MultiVector" where
  \<comment> \<open>\<^verbatim>\<open>Epetra_MultiVector::Scale(a)\<close>: every entry is replaced by \<open>a\<close> times itself.\<close>
  "Scale a v = map (\<lambda>x. dmul a x) v"

definition request_derivative ::
  "(Key \<Rightarrow> string \<Rightarrow> Key \<Rightarrow> State \<Rightarrow> error + State) \<Rightarrow> Key \<Rightarrow> Key \<Rightarrow> unit prog"
where
  \<comment> \<open>\<^verbatim>\<open>S_next_->GetFieldEvaluator(key)->HasFieldDerivativeChanged(S_next_, name_, wrt)\<close>;
      the answer is not used, the State is what the evaluator leaves.\<close>
  "request_derivative HasFieldDerivativeChanged key wrt =
     then_run (\<lambda>pk. emit (E_HasFieldDerivativeChanged key (name pk) wrt) pk) (\<lambda>_ pk.
       case HasFieldDerivativeChanged key (name pk) wrt (S_next pk) of
         Inl e \<Rightarrow> (Inl e, pk)
       | Inr S' \<Rightarrow> (Inr (), pk\<lparr>S_next := S'\<rparr>))"

definition read_field :: "Key \<Rightarrow> CompositeVector prog" where
  \<comment> \<open>\<^verbatim>\<open>S_next_->GetFieldData(key)\<close>\<close>
  "read_field key =
     then_run (emit (E_GetFieldData key)) (\<lambda>_ pk. attempt (GetFieldData (S_next pk) key) pk)"

text \<open>The loop over the debug cells in \<^verbatim>\<open>update_precon\<close>.\<close>

fun print_derivatives ::
  "Epetra_MultiVector \<Rightarrow> Epetra_MultiVector \<Rightarrow> Epetra_MultiVector \<Rightarrow> Epetra_MultiVector
     \<Rightarrow> int list \<Rightarrow> unit prog"
where
  "print_derivatives Ccc Dcc dsi_dp dsi_dT [] = returns ()"
| "print_derivatives Ccc Dcc dsi_dp dsi_dT (c0 # cs) =
     then_run (attempt (element Ccc c0)) (\<lambda>v1.
     then_run (print (Val ''dwc_dT'' c0 v1)) (\<lambda>_.
     then_run (attempt (element Dcc c0)) (\<lambda>v2.
     then_run (print (Val ''de_dp'' c0 v2)) (\<lambda>_.
     then_run (attempt (element dsi_dp c0)) (\<lambda>v3.
     then_run (print (Val ''dsi_dp'' c0 v3)) (\<lambda>_.
     then_run (attempt (element dsi_dT c0)) (\<lambda>v4.
     then_run (print (Val ''dsi_dT'' c0 v4)) (\<lambda>_.
     then_run (print (Text ''--'')) (\<lambda>_.
     print_derivatives Ccc Dcc dsi_dp dsi_dT cs)))))))))"

definition install_off_diagonals ::
  "double \<Rightarrow> CompositeVector \<Rightarrow> CompositeVector \<Rightarrow> unit prog"
where
  \<comment> \<open>From \<^verbatim>\<open>// collect derivatives\<close> to the end of \<^verbatim>\<open>update_precon\<close>. The call
      \<^verbatim>\<open>ComputeSchurComplement()\<close> without argument is recorded with \<open>False\<close>. In
      \<^verbatim>\<open>Scale(1./h)\<close> the reciprocal is formed first, by a division that rounds, and
      every entry is multiplied by it. The literal \<^verbatim>\<open>3.04746e+07\<close> is a double as it
      stands, \<^verbatim>\<open>68690.3\<close> is the double nearest to that decimal.\<close>
  "install_off_diagonals h dA_dy2 dB_dy1 =
     then_run (attempt (ViewComponent dA_dy2 ''cell'')) (\<lambda>Ccc.
     then_run (attempt (ViewComponent dB_dy1 ''cell'')) (\<lambda>Dcc.
     then_run (\<lambda>pk.
       if out pk \<and> includesVerbLevel (verbosity pk) VERB_EXTREME True then
         then_run (read_field ''dsaturation_ice_dpressure'') (\<lambda>f1.
         then_run (attempt (ViewComponent f1 ''cell'')) (\<lambda>dsi_dp.
         then_run (read_field ''dsaturation_ice_dtemperature'') (\<lambda>f2.
         then_run (attempt (ViewComponent f2 ''cell'')) (\<lambda>dsi_dT pk.
           print_derivatives Ccc Dcc dsi_dp dsi_dT (dc pk) pk)))) pk
       else returns () pk) (\<lambda>_.
     then_run (pc_call (E_SetOffDiagonals (Scale (ddiv (Finite 1) h) Ccc)
                                          (Scale (ddiv (Finite 1) h) Dcc))) (\<lambda>_.
     then_run (\<lambda>pk.
       if dless (dabs (dsub (time (S_next pk)) (Finite 30474600))) (to_double 68690.3) then
         then_run (print (Text ''DUMPING SCHUR!'')) (\<lambda>_.
           pc_call (E_ComputeSchurComplement True)) pk
       else pc_call (E_ComputeSchurComplement False) pk) (\<lambda>_.
     pc_call E_UpdatePreconditioner)))))"

definition update_precon ::
  "(Key \<Rightarrow> string \<Rightarrow> Key \<Rightarrow> State \<Rightarrow> error + State) \<Rightarrow> double \<Rightarrow> TreeVector \<Rightarrow> double
     \<Rightarrow> unit prog"
where
  "update_precon HasFieldDerivativeChanged t up h =
     then_run (emit (E_StrongMPC_update_precon t up h)) (\<lambda>_ pk.
       if \<not> decoupled pk then
         then_run (\<lambda>pk. request_derivative HasFieldDerivativeChanged (A_key pk) (y2_key pk) pk) (\<lambda>_.
         then_run (\<lambda>pk. request_derivative HasFieldDerivativeChanged (B_key pk) (y1_key pk) pk) (\<lambda>_.
         then_run (\<lambda>pk. read_field (dA_dy2_key pk) pk) (\<lambda>dA_dy2.
         then_run (\<lambda>pk. read_field (dB_dy1_key pk) pk) (\<lambda>dB_dy1.
         install_off_diagonals h dA_dy2 dB_dy1)))) pk
       else returns () pk)"

subsection \<open>\<^verbatim>\<open>MPCCoupledCells::precon\<close>\<close>

definition cell_get_faces :: "Mesh option \<Rightarrow> int \<Rightarrow> error + int list" where
  \<comment> \<open>\<^verbatim>\<open>mesh_->cell_get_faces_and_dirs(c, &faces, &dirs)\<close>; the directions are not used.\<close>
  "cell_get_faces m c =
     (case m of None \<Rightarrow> Inl NullPointer | Some msh \<Rightarrow> element (cell_faces msh) c)"

definition entry :: "TreeVector \<Rightarrow> int \<Rightarrow> string \<Rightarrow> int \<Rightarrow> error + double" where
  \<comment> \<open>\<^verbatim>\<open>(*u->SubVector(i)->Data())(component, j)\<close>\<close>
  "entry u i component j =
     and_then (element u i) (\<lambda>d.
     and_then (ViewComponent d component) (\<lambda>c. element c j))"

fun print_faces :: "string \<Rightarrow> TreeVector \<Rightarrow> int \<Rightarrow> int list \<Rightarrow> unit prog" where
  "print_faces label u i [] = returns ()"
| "print_faces label u i (f # fs) =
     then_run (attempt (entry u i ''face'' f)) (\<lambda>v.
     then_run (print (Val label f v)) (\<lambda>_.
     print_faces label u i fs))"

fun print_cells :: "string \<Rightarrow> string \<Rightarrow> string \<Rightarrow> TreeVector \<Rightarrow> int list \<Rightarrow> unit prog" where
  "print_cells header l0 l1 u [] = returns ()"
| "print_cells header l0 l1 u (c0 # cs) =
     then_run (\<lambda>pk. attempt (cell_get_faces (mesh pk) c0) pk) (\<lambda>fnums0.
     then_run (print (Text header)) (\<lambda>_.
     then_run (attempt (entry u 0 ''cell'' c0)) (\<lambda>v0.
     then_run (print (Val l0 c0 v0)) (\<lambda>_.
     then_run (print_faces l0 u 0 fnums0) (\<lambda>_.
     then_run (attempt (entry u 1 ''cell'' c0)) (\<lambda>v1.
     then_run (print (Val l1 c0 v1)) (\<lambda>_.
     then_run (print_faces l1 u 1 fnums0) (\<lambda>_.
     print_cells header l0 l1 u cs))))))))"

text \<open>
  What the base class returns for \<^verbatim>\<open>StrongMPC::precon\<close> and what the linear operator
  returns for \<^verbatim>\<open>ApplyInverse\<close> are the first two arguments; each may depend on every
  call the collaborators have received so far.
\<close>

definition precon ::
  "(event list \<Rightarrow> TreeVector \<Rightarrow> error + TreeVector) \<Rightarrow>
   (event list \<Rightarrow> TreeVector \<Rightarrow> error + TreeVector) \<Rightarrow> TreeVector \<Rightarrow> TreeVector prog"
where
  "precon StrongMPC_precon ApplyInverse u pk =
     (if decoupled pk then
        then_run (emit (E_StrongMPC_precon u)) (\<lambda>_ pk.
          attempt (StrongMPC_precon (trace pk) u) pk) pk
      else
        then_run (\<lambda>pk.
          if out pk \<and> includesVerbLevel (verbosity pk) VERB_HIGH True
          then print_cells ''Residuals:'' ''p'' ''T'' u (dc pk) pk
          else returns () pk) (\<lambda>_.
        then_run (\<lambda>pk.
          case linsolve_preconditioner pk of
            None \<Rightarrow> throw NullPointer pk
          | Some l \<Rightarrow>
              then_run (emit (E_ApplyInverse u)) (\<lambda>_ pk.
                attempt (ApplyInverse (trace pk) u) pk) pk) (\<lambda>Pu.
        then_run (\<lambda>pk.
          if out pk \<and> includesVerbLevel (verbosity pk) VERB_HIGH True
          then print_cells ''Preconditioned Updates:'' ''Pp'' ''PT'' Pu (dc pk) pk
          else returns () pk) (\<lambda>_.
        returns Pu))) pk)"

subsection \<open>A sample configuration\<close>

text \<open>
  The end-to-end scenario of the specification, used to evaluate the definitions: three
  cells, the coupling derivatives \<^verbatim>\<open>0.1\<close> and \<^verbatim>\<open>0.2\<close> on every cell (the doubles
  nearest to these decimals), an object as \<^verbatim>\<open>setup\<close> leaves it. The second State
  holds the derivatives of the ice saturation as well.
\<close>

abbreviation scenario_State :: State where
  "scenario_State \<equiv>
     \<lparr>field_data =
        [''dwater_content_dtemperature'' \<mapsto>
           [''cell'' \<mapsto> [to_double 0.1, to_double 0.1, to_double 0.1]],
         ''denergy_dpressure'' \<mapsto>
           [''cell'' \<mapsto> [to_double 0.2, to_double 0.2, to_double 0.2]]],
      time = Finite 0,
      meshes = [''domain'' \<mapsto> \<lparr>cell_faces = [[0, 1], [1, 2], [2, 3]]\<rparr>],
      updates = []\<rparr>"


abbreviation scenario_pk :: MPCCoupledCells where
  "scenario_pk \<equiv>
     \<lparr>plist = [], name = ''coupled'', vo = VerboseObject None ''coupled'' [],
      out = True, verbosity = VERB_MEDIUM, sub_pks = [0, 1], S_next = scenario_State,
      decoupled = False,
      A_key = ''water_content'', B_key = ''energy'',
      y1_key = ''pressure'', y2_key = ''temperature'',
      dA_dy2_key = ''dwater_content_dtemperature'', dB_dy1_key = ''denergy_dpressure'',
      mesh = Some \<lparr>cell_faces = [[0, 1], [1, 2], [2, 3]]\<rparr>,
      dc = [0, 2], dcvo = [],
      mfd_preconditioner = Some \<lparr>pc_plist = [], pc_mesh = Some \<lparr>cell_faces = [[0, 1], [1, 2], [2, 3]]\<rparr>\<rparr>,
      linsolve_preconditioner = Some TheCoupledMatrix,
      trace = [], printed = []\<rparr>"

text \<open>Evaluators that report no change and leave the State as it is.\<close>

abbreviation idle :: "Key \<Rightarrow> string \<Rightarrow> Key \<Rightarrow> State \<Rightarrow> error + State" where
  "idle \<equiv> (\<lambda>key request wrt S. Inr S)"

text \<open>
  A column of three cells for the average-temperature evaluator, and the evaluator with a
  transition width and its two flags left open.
\<close>

abbreviation column_State :: "double list \<Rightarrow> double list \<Rightarrow> Key list \<Rightarrow> State" where
  "column_State temps avg ups \<equiv>
     \<lparr>field_data = [''T'' \<mapsto> [''cell'' \<mapsto> temps], ''avg'' \<mapsto> [''cell'' \<mapsto> avg]],
      time = Finite 0, meshes = Map.empty, updates = ups\<rparr>"

abbreviation column_evaluator ::
  "double \<Rightarrow> Key list \<Rightarrow> bool \<Rightarrow> ActiveLayerAverageTempEvaluator"
where
  "column_evaluator w rs once \<equiv>
     \<lparr>my_key = ''avg'', dependencies = [''T''], requests = rs, temp_key = ''T'',
      trans_width = w, updated_once = once\<rparr>"


text \<open>
  A configuration for \<^verbatim>\<open>setup\<close>, with the debug cell ranks left open, and the object
  before \<^verbatim>\<open>setup\<close> has run.
\<close>

abbreviation scenario_plist :: "int list \<Rightarrow> ParameterList" where
  "scenario_plist ranks \<equiv>
     [(''conserved quantity A'', PString ''water_content''),
      (''conserved quantity B'', PString ''energy''),
      (''primary variable A'', PString ''pressure''),
      (''primary variable B'', PString ''temperature''),
      (''mesh key'', PString ''domain''),
      (''debug cells'', PIntArray [0, 2]),
      (''debug cell ranks'', PIntArray ranks)]"

abbreviation fresh_pk :: "ParameterList \<Rightarrow> MPCCoupledCells" where
  "fresh_pk pl \<equiv>
     \<lparr>plist = pl, name = ''coupled'', vo = VerboseObject None ''coupled'' [],
      out = True, verbosity = VERB_MEDIUM, sub_pks = [0, 1], S_next = scenario_State,
      decoupled = False, A_key = [], B_key = [], y1_key = [], y2_key = [],
      dA_dy2_key = [], dB_dy1_key = [], mesh = None, dc = [], dcvo = [],
      mfd_preconditioner = None, linsolve_preconditioner = None,
      trace = [], printed = []\<rparr>"

section \<open>Properties of the material-property models\<close>

text \<open>
  Claim C9. For every saturation \<open>s\<close> the linear relative-permeability model returns
  \<open>k_relative s = s\<close> and \<open>d_k_relative s = 1\<close>, and the derivative capability is the
  analytic derivative of the value capability at \<open>s\<close>.
\<close>

theorem k_relative_derivative_consistent:
  "k_relative s = s \<and> d_k_relative s = 1.0 \<and>
   (k_relative has_real_derivative d_k_relative s) (at s)"
proof -
  have "((\<lambda>x::real. x) has_real_derivative 1) (at s)"
    by (rule DERIV_ident)
  moreover have "k_relative = (\<lambda>x. x)"
    by (rule ext) (simp add: k_relative_def)
  ultimately show ?thesis
    by (simp add: k_relative_def d_k_relative_def)
qed

text \<open>
  Claim C10. \<open>is_valid\<close> holds exactly when the sum of the two dispersivities is not
  zero; in particular a model with \<open>alphaL = - alphaT\<close> is reported invalid although
  both parameters are nonzero.
\<close>

theorem is_valid_iff_sum_nonzero:
  "(is_valid m \<longleftrightarrow> alphaL m + alphaT m \<noteq> 0) \<and>
   (alphaL m = - alphaT m \<and> alphaL m \<noteq> 0 \<and> alphaT m \<noteq> 0 \<longrightarrow> \<not> is_valid m)"
  by (simp add: is_valid_def)

theorem is_valid_iff_sum_nonzero_witness:
  "alphaL \<lparr>alphaL = 2, alphaT = - 2\<rparr> = - alphaT \<lparr>alphaL = 2, alphaT = - 2\<rparr> \<and>
   alphaL \<lparr>alphaL = 2, alphaT = - 2\<rparr> \<noteq> 0 \<and>
   alphaT \<lparr>alphaL = 2, alphaT = - 2\<rparr> \<noteq> 0 \<and>
   \<not> is_valid \<lparr>alphaL = 2, alphaT = - 2\<rparr>"
  using is_valid_iff_sum_nonzero [of "\<lparr>alphaL = 2, alphaT = - 2\<rparr>"]
  by simp

section \<open>Properties of the double arithmetic\<close>

subsection \<open>Powers of two and the binary exponent\<close>

lemma pow2_powr: "pow2 e = 2 powr (real_of_int e)"
  apply (auto simp: pow2_def powr_realpow[symmetric] powr_minus_divide[symmetric])
  done

lemma pow2_pos [simp]: "0 < pow2 e"
  by (simp add: pow2_powr)

lemma pow2_add: "pow2 (a + b) = pow2 a * pow2 b"
  by (simp add: pow2_powr powr_add)

lemma pow2_less_iff: "pow2 a < pow2 b \<longleftrightarrow> a < b"
  by (simp add: pow2_powr)

lemma pow2_le_iff: "pow2 a \<le> pow2 b \<longleftrightarrow> a \<le> b"
  by (simp add: pow2_powr)

lemma bitlen_ge1: "0 < n \<Longrightarrow> 1 \<le> bitlen n"
  using bitlen_eq_zero_iff [of n] bitlen_nonneg [of n] by linarith

lemma ilog2_big:
  fixes x :: real
  assumes "1 \<le> \<bar>x\<bar>"
  shows "2 ^ nat (bitlen \<lfloor>\<bar>x\<bar>\<rfloor> - 1) \<le> \<bar>x\<bar> \<and> \<bar>x\<bar> < 2 ^ nat (bitlen \<lfloor>\<bar>x\<bar>\<rfloor>)"
proof -
  define n where "n = \<lfloor>\<bar>x\<bar>\<rfloor>"
  have n: "0 < n" using assms unfolding n_def by simp
  have nx: "real_of_int n \<le> \<bar>x\<bar>" "\<bar>x\<bar> < real_of_int n + 1"
    unfolding n_def by linarith+
  from bitlen_bounds[OF n] have l: "2 ^ nat (bitlen n - 1) \<le> n" and u: "n + 1 \<le> 2 ^ nat (bitlen n)"
    by linarith+
  have "(2::real) ^ nat (bitlen n - 1) \<le> real_of_int n"
    using l by (simp only: numeral_power_le_of_int_cancel_iff)
  moreover have "real_of_int (n + 1) \<le> 2 ^ nat (bitlen n)"
    using u by (simp only: of_int_le_numeral_power_cancel_iff)
  ultimately show ?thesis using nx unfolding n_def [symmetric] by linarith
qed

lemma ilog2_small:
  fixes x :: real
  assumes "0 < \<bar>x\<bar>" and "\<bar>x\<bar> < 1"
  shows "1 / 2 ^ nat (bitlen (\<lceil>1 / \<bar>x\<bar>\<rceil> - 1)) \<le> \<bar>x\<bar> \<and>
         \<bar>x\<bar> < 1 / 2 ^ nat (bitlen (\<lceil>1 / \<bar>x\<bar>\<rceil> - 1) - 1) \<and>
         1 \<le> bitlen (\<lceil>1 / \<bar>x\<bar>\<rceil> - 1)"
proof -
  define r where "r = 1 / \<bar>x\<bar>"
  define c where "c = \<lceil>r\<rceil> - 1"
  have r: "1 < r" using assms by (simp add: r_def)
  have cr: "real_of_int c < r" "r \<le> real_of_int c + 1"
    unfolding c_def by linarith+
  have c: "0 < c" using r cr by linarith
  from bitlen_bounds[OF c] have l: "2 ^ nat (bitlen c - 1) \<le> c" and u: "c + 1 \<le> 2 ^ nat (bitlen c)"
    by linarith+
  have "(2::real) ^ nat (bitlen c - 1) \<le> real_of_int c"
    using l by (simp only: numeral_power_le_of_int_cancel_iff)
  with cr have 1: "2 ^ nat (bitlen c - 1) < r" by linarith
  have "real_of_int (c + 1) \<le> 2 ^ nat (bitlen c)"
    using u by (simp only: of_int_le_numeral_power_cancel_iff)
  with cr have 2: "r \<le> 2 ^ nat (bitlen c)" by simp
  have a: "1 / 2 ^ nat (bitlen c) \<le> \<bar>x\<bar>"
    using 2 assms by (simp add: r_def field_simps)
  have b: "\<bar>x\<bar> < 1 / 2 ^ nat (bitlen c - 1)"
    using 1 assms by (simp add: r_def field_simps)
  show ?thesis using a b bitlen_ge1 [OF c] unfolding c_def r_def by simp
qed

lemma ilog2_bounds:
  assumes "x \<noteq> 0"
  shows "pow2 (ilog2 x) \<le> \<bar>x\<bar> \<and> \<bar>x\<bar> < pow2 (ilog2 x + 1)"
proof (cases "1 \<le> \<bar>x\<bar>")
  case True
  have "0 < \<lfloor>\<bar>x\<bar>\<rfloor>" using True by simp
  from bitlen_ge1 [OF this] ilog2_big [OF True] True show ?thesis
    by (simp add: ilog2_def pow2_def)
next
  case False
  then have x: "0 < \<bar>x\<bar>" "\<bar>x\<bar> < 1" using assms by simp_all
  define j where "j = bitlen (\<lceil>1 / \<bar>x\<bar>\<rceil> - 1)"
  from ilog2_small [OF x] have a: "1 / 2 ^ nat j \<le> \<bar>x\<bar>" and b: "\<bar>x\<bar> < 1 / 2 ^ nat (j - 1)"
    and j: "1 \<le> j" unfolding j_def by simp_all
  have i: "ilog2 x = - j" using False by (simp add: ilog2_def j_def)
  show ?thesis
  proof (cases "j = 1")
    case True
    with a b show ?thesis unfolding i by (simp add: pow2_def)
  next
    case F: False
    with j have "1 < j" by simp
    then have "\<not> 0 \<le> - j" "\<not> 0 \<le> - j + 1" by simp_all
    with a b show ?thesis unfolding i by (simp add: pow2_def)
  qed
qed

lemma ilog2_unique:
  assumes "pow2 k \<le> \<bar>x\<bar>" and "\<bar>x\<bar> < pow2 (k + 1)"
  shows "ilog2 x = k"
proof -
  have "0 < pow2 k" by simp
  with assms(1) have "0 < \<bar>x\<bar>" by linarith
  then have x: "x \<noteq> 0" by auto
  from ilog2_bounds[OF x] assms have "pow2 k < pow2 (ilog2 x + 1)" "pow2 (ilog2 x) < pow2 (k + 1)"
    by linarith+
  then show ?thesis by (simp add: pow2_less_iff)
qed


subsection \<open>Rounding\<close>

lemma pow2_nonneg_of_int: "0 \<le> d \<Longrightarrow> pow2 d = of_int (2 ^ nat d)"
  by (simp add: pow2_def)

lemma pow2_numeral: "pow2 (numeral n) = 2 ^ numeral n" "pow2 0 = 1" "pow2 1 = 2"
  "pow2 (- numeral n) = 1 / 2 ^ numeral n" "pow2 (- 1) = 1 / 2"
  by (simp_all add: pow2_def)

lemma pow2_neq0 [simp]: "pow2 e \<noteq> 0"
  by (simp add: pow2_powr)

lemma abs_pow2 [simp]: "\<bar>pow2 e\<bar> = pow2 e"
  by (simp add: pow2_powr)

lemma pow2_diff: "pow2 (a - b) = pow2 a / pow2 b"
  by (simp add: pow2_powr powr_diff)

lemma pow2_small: "pow2 1 = 2" "pow2 52 = 2 ^ 52" "pow2 53 = 2 ^ 53"
  by (simp_all add: pow2_def)

lemma pow2_Suc: "pow2 (a + 1) = 2 * pow2 a"
  by (simp add: pow2_add pow2_small)

lemma rne_of_int [simp]: "rne (of_int n) = n"
  by (simp add: rne_def)

lemma rne_lower: "of_int a \<le> x \<Longrightarrow> a \<le> rne x"
proof -
  assume "of_int a \<le> x"
  then have "a \<le> \<lfloor>x\<rfloor>" by (simp add: le_floor_iff)
  then show ?thesis by (simp add: rne_def Let_def)
qed

lemma rne_upper: "x \<le> of_int b \<Longrightarrow> rne x \<le> b"
proof (cases "x = of_int b")
  case True
  then show ?thesis by simp
next
  case False
  assume "x \<le> of_int b"
  with False have "x < of_int b" by simp
  then have "\<lfloor>x\<rfloor> < b" by (simp add: floor_less_iff)
  then show ?thesis by (simp add: rne_def Let_def)
qed

lemma rne_abs_bounds:
  assumes "of_int a \<le> \<bar>x\<bar>" and "\<bar>x\<bar> \<le> of_int b" and "0 \<le> a"
  shows "a \<le> \<bar>rne x\<bar> \<and> \<bar>rne x\<bar> \<le> b"
proof (cases "0 \<le> x")
  case True
  with assms rne_lower [of a x] rne_upper [of x b] show ?thesis by simp
next
  case False
  with assms have "of_int (- b) \<le> x" "x \<le> of_int (- a)" by simp_all
  with rne_lower [of "- b" x] rne_upper [of x "- a"] assms(3) show ?thesis by linarith
qed

lemma to_double_binade:
  assumes "pow2 k \<le> \<bar>x\<bar>" and "\<bar>x\<bar> < pow2 (k + 1)" and "- 1022 \<le> k" and "k \<le> 1022"
  shows "to_double x = Finite (of_int (rne (x / pow2 (k - 52))) * pow2 (k - 52)) \<and>
         2 ^ 52 \<le> \<bar>rne (x / pow2 (k - 52))\<bar> \<and> \<bar>rne (x / pow2 (k - 52))\<bar> \<le> 2 ^ 53"
proof -
  define q where "q = pow2 (k - 52)"
  define m where "m = rne (x / q)"
  have q: "0 < q" by (simp add: q_def)
  have i: "ilog2 x = k" using assms(1,2) by (rule ilog2_unique)
  have pk: "pow2 k = 2 ^ 52 * q" "pow2 (k + 1) = 2 ^ 53 * q"
    by (simp_all add: q_def pow2_diff pow2_add pow2_small)
  have "2 ^ 52 \<le> \<bar>x\<bar> / q" "\<bar>x\<bar> / q \<le> 2 ^ 53"
    using assms(1,2) q unfolding pk by (simp_all add: field_simps)
  then have "of_int (2 ^ 52) \<le> \<bar>x / q\<bar>" "\<bar>x / q\<bar> \<le> of_int (2 ^ 53)"
    using q by simp_all
  from rne_abs_bounds [OF this] have m: "2 ^ 52 \<le> \<bar>m\<bar>" "\<bar>m\<bar> \<le> 2 ^ 53"
    by (simp_all add: m_def)
  then have m0: "m \<noteq> 0" by auto
  have "\<bar>real_of_int m\<bar> \<le> 2 ^ 53" using m(2) by (simp flip: of_int_abs)
  then have "\<bar>of_int m * q\<bar> \<le> 2 ^ 53 * q"
    using q by (simp add: abs_mult)
  also have "\<dots> = pow2 (k + 1)" by (simp add: pk)
  also have "\<dots> < pow2 1024" using assms(4) by (simp only: pow2_less_iff)
  finally have fin: "\<not> pow2 1024 \<le> \<bar>of_int m * q\<bar>" by simp
  have nz: "of_int m * q \<noteq> 0" using m0 q by simp
  have mx: "max k (- 1022) = k" using assms(3) by simp
  have "to_double x = Finite (of_int m * q)"
    using fin nz unfolding to_double_def i mx Let_def q_def [symmetric] m_def [symmetric]
    by simp
  with m show ?thesis unfolding m_def q_def by simp
qed

lemma to_double_eval:
  assumes "pow2 k \<le> \<bar>x\<bar>" and "\<bar>x\<bar> < pow2 (k + 1)" and "- 1022 \<le> k" and "k \<le> 1022"
    and "rne (x / pow2 (k - 52)) = m"
  shows "to_double x = Finite (of_int m * pow2 (k - 52))"
  using to_double_binade [OF assms(1-4)] assms(5) by simp

lemma to_double_grid_lt:
  assumes "\<bar>m\<bar> < 2 ^ 53" and "m \<noteq> 0" and "- 1074 \<le> e" and "e \<le> 971"
  shows "to_double (of_int m * pow2 e) = Finite (of_int m * pow2 e)"
proof -
  define x where "x = of_int m * pow2 e"
  have x0: "x \<noteq> 0" using assms(2) by (simp add: x_def)
  define k where "k = ilog2 x"
  define e' where "e' = max k (- 1022) - 52"
  have "\<bar>real_of_int m\<bar> < 2 ^ 53" using assms(1) by (simp flip: of_int_abs)
  then have "\<bar>x\<bar> < 2 ^ 53 * pow2 e"
    by (simp add: x_def abs_mult)
  also have "\<dots> = pow2 (e + 53)" by (simp add: pow2_add pow2_small)
  finally have ub: "\<bar>x\<bar> < pow2 (e + 53)" .
  from ilog2_bounds [OF x0] ub have "pow2 k < pow2 (e + 53)" unfolding k_def by linarith
  then have "k < e + 53" by (simp only: pow2_less_iff)
  with assms(3) have le: "e' \<le> e" by (simp add: e'_def)
  define d where "d = e - e'"
  have d: "0 \<le> d" using le by (simp add: d_def)
  have "pow2 e = pow2 d * pow2 e'" by (simp add: d_def pow2_add [symmetric])
  then have xe: "x = of_int (m * 2 ^ nat d) * pow2 e'"
    by (simp add: x_def pow2_nonneg_of_int [OF d])
  then have "x / pow2 e' = of_int (m * 2 ^ nat d)" by simp
  then have r: "of_int (rne (x / pow2 e')) * pow2 e' = x"
    using xe by (simp only: rne_of_int)
  have "pow2 (e + 53) \<le> pow2 1024" using assms(4) by (simp only: pow2_le_iff)
  with ub have fin: "\<not> pow2 1024 \<le> \<bar>x\<bar>" by simp
  have "to_double x = Finite x"
    using fin x0 unfolding to_double_def k_def [symmetric] e'_def [symmetric] Let_def r
    by simp
  then show ?thesis by (simp add: x_def)
qed

lemma to_double_grid:
  assumes "\<bar>m\<bar> \<le> 2 ^ 53" and "m \<noteq> 0" and "- 1074 \<le> e" and "e \<le> 970"
  shows "to_double (of_int m * pow2 e) = Finite (of_int m * pow2 e)"
proof (cases "\<bar>m\<bar> < 2 ^ 53")
  case True
  with assms show ?thesis by (simp add: to_double_grid_lt)
next
  case False
  with assms(1) have "\<bar>m\<bar> = 2 ^ 53" by simp
  then consider "m = 2 ^ 53" | "m = - (2 ^ 53)" by (auto simp: abs_if split: if_splits)
  then have "\<exists>n. m = 2 * n \<and> \<bar>n\<bar> < 2 ^ 53 \<and> n \<noteq> 0"
    by cases auto
  then obtain n where n: "m = 2 * n" "\<bar>n\<bar> < 2 ^ 53" "n \<noteq> 0" by blast
  have "of_int m * pow2 e = of_int n * pow2 (e + 1)"
    by (simp add: n(1) pow2_add pow2_small)
  moreover have "to_double (of_int n * pow2 (e + 1)) = Finite (of_int n * pow2 (e + 1))"
    using n assms by (intro to_double_grid_lt) simp_all
  ultimately show ?thesis by simp
qed

lemma to_double_half:
  assumes "normal_range z"
  shows "\<exists>y. y \<noteq> 0 \<and> to_double z = Finite y \<and> to_double (z / 2) = Finite (y / 2) \<and>
           to_double (y / 2) = Finite (y / 2)"
proof -
  have "0 < pow2 (- 1021)" by (rule pow2_pos)
  with assms have "0 < \<bar>z\<bar>" unfolding normal_range_def by linarith
  then have z0: "z \<noteq> 0" by auto
  define k where "k = ilog2 z"
  from ilog2_bounds [OF z0] have b: "pow2 k \<le> \<bar>z\<bar>" "\<bar>z\<bar> < pow2 (k + 1)"
    by (simp_all add: k_def)
  from assms b have "pow2 (- 1021) < pow2 (k + 1)" "pow2 k < pow2 1023"
    unfolding normal_range_def by linarith+
  then have k: "- 1021 \<le> k" "k \<le> 1022" by (simp_all add: pow2_less_iff)
  define m where "m = rne (z / pow2 (k - 52))"
  have k0: "- 1022 \<le> k" "k \<le> 1022" and k1: "- 1022 \<le> k - 1" "k - 1 \<le> 1022"
    using k by simp_all
  note tz = to_double_binade [OF b k0, folded m_def]
  from tz have y: "to_double z = Finite (of_int m * pow2 (k - 52))"
    and m: "2 ^ 52 \<le> \<bar>m\<bar>" "\<bar>m\<bar> \<le> 2 ^ 53"
    by blast+
  have p: "pow2 (k - 52) = 2 * pow2 (k - 1 - 52)" "pow2 k = 2 * pow2 (k - 1)"
    using pow2_Suc [of "k - 1 - 52"] pow2_Suc [of "k - 1"] by simp_all
  have az: "\<bar>z / 2\<bar> = \<bar>z\<bar> / 2" and kk: "k - 1 + 1 = k" by simp_all
  have b2: "pow2 (k - 1) \<le> \<bar>z / 2\<bar>" "\<bar>z / 2\<bar> < pow2 (k - 1 + 1)"
    unfolding az kk using b p(2) pow2_Suc [of k] by linarith+
  have q2: "z / 2 / pow2 (k - 1 - 52) = z / pow2 (k - 52)"
    unfolding p(1) by simp
  note th = to_double_binade [OF b2 k1, unfolded q2, folded m_def]
  from th have h: "to_double (z / 2) = Finite (of_int m * pow2 (k - 1 - 52))"
    by blast
  have m0: "m \<noteq> 0" using m(1) by auto
  have g: "to_double (of_int m * pow2 (k - 1 - 52)) = Finite (of_int m * pow2 (k - 1 - 52))"
    using m m0 k by (intro to_double_grid) simp_all
  have e: "of_int m * pow2 (k - 52) / 2 = of_int m * pow2 (k - 1 - 52)"
    by (simp add: p(1))
  have "of_int m * pow2 (k - 52) \<noteq> 0" using m0 by simp
  with y h g e show ?thesis by auto
qed


subsection \<open>Sample values\<close>

text \<open>
  The roundings that the sample inputs of the later sections need, each computed from the
  binary exponent of the exact value and the rounded multiple of the spacing.
\<close>

lemma to_double_0: "to_double 0 = Finite 0"
  by (simp add: to_double_def rne_def not_le)

lemma to_double_int:
  assumes "n \<noteq> 0" and "\<bar>n\<bar> < 2 ^ 53"
  shows "to_double (of_int n) = Finite (of_int n)"
  using to_double_grid_lt [of n 0] assms by (simp add: pow2_numeral)

lemma sample_literals:
  "to_double (1 / 10) = Finite (3602879701896397 / 2 ^ 55)"
  "to_double (1 / 5) = Finite (3602879701896397 / 2 ^ 54)"
  "to_double (1 / 20) = Finite (3602879701896397 / 2 ^ 56)"
  "to_double (5463 / 20) = Finite (2402652809016115 / 2 ^ 43)"
  "to_double (686903 / 10) = Finite (4720361472838861 / 2 ^ 36)"
  "to_double (1366 / 5) = Finite (4806185227334451 / 2 ^ 44)"
  using to_double_eval [where x = "1 / 10" and k = "- 4" and m = 7205759403792794]
    to_double_eval [where x = "1 / 5" and k = "- 3" and m = 7205759403792794]
    to_double_eval [where x = "1 / 20" and k = "- 5" and m = 7205759403792794]
    to_double_eval [where x = "5463 / 20" and k = 8 and m = 4805305618032230]
    to_double_eval [where x = "686903 / 10" and k = 16 and m = 4720361472838861]
    to_double_eval [where x = "1366 / 5" and k = 8 and m = 4806185227334451]
  by (simp_all add: pow2_numeral rne_def)

lemma sample_reciprocals:
  "ddiv (Finite 1) (Finite 10) = Finite (3602879701896397 / 2 ^ 55)"
  "ddiv (Finite 1) (Finite 20) = Finite (3602879701896397 / 2 ^ 56)"
  using sample_literals(1,3) by (simp_all add: ddiv_def)

lemma sample_products:
  "dmul (Finite (3602879701896397 / 2 ^ 55)) (Finite (3602879701896397 / 2 ^ 55)) =
     Finite (1441151880758559 / 2 ^ 57)"
  "dmul (Finite (3602879701896397 / 2 ^ 55)) (Finite (3602879701896397 / 2 ^ 54)) =
     Finite (1441151880758559 / 2 ^ 56)"
  "dmul (Finite (3602879701896397 / 2 ^ 56)) (Finite (3602879701896397 / 2 ^ 55)) =
     Finite (1441151880758559 / 2 ^ 58)"
  "dmul (Finite (3602879701896397 / 2 ^ 56)) (Finite (3602879701896397 / 2 ^ 54)) =
     Finite (1441151880758559 / 2 ^ 57)"
  using
    to_double_eval [where x = "3602879701896397 / 2 ^ 55 * (3602879701896397 / 2 ^ 55)"
      and k = "- 7" and m = 5764607523034236]
    to_double_eval [where x = "3602879701896397 / 2 ^ 55 * (3602879701896397 / 2 ^ 54)"
      and k = "- 6" and m = 5764607523034236]
    to_double_eval [where x = "3602879701896397 / 2 ^ 56 * (3602879701896397 / 2 ^ 55)"
      and k = "- 8" and m = 5764607523034236]
  by (simp_all add: dmul_def pow2_numeral rne_def)

lemma sample_quotients:
  "ddiv (Finite (3602879701896397 / 2 ^ 55)) (Finite 10) = Finite (5764607523034235 / 2 ^ 59)"
  "ddiv (Finite (3602879701896397 / 2 ^ 54)) (Finite 10) = Finite (5764607523034235 / 2 ^ 58)"
  "ddiv (Finite (1441151880758559 / 2 ^ 57)) (Finite 2) = Finite (1441151880758559 / 2 ^ 58)"
  "ddiv (Finite (1441151880758559 / 2 ^ 56)) (Finite 2) = Finite (1441151880758559 / 2 ^ 57)"
  using
    to_double_eval [where x = "3602879701896397 / 2 ^ 55 / 10"
      and k = "- 7" and m = 5764607523034235]
    to_double_eval [where x = "3602879701896397 / 2 ^ 54 / 10"
      and k = "- 6" and m = 5764607523034235]
    to_double_grid_lt [where m = 1441151880758559 and e = "- 58"]
    to_double_grid_lt [where m = 1441151880758559 and e = "- 57"]
  by (simp_all add: ddiv_def pow2_numeral rne_def)

lemma sample_window:
  "dless (dabs (dsub (Finite 0) (Finite 30474600))) (to_double 68690.3) = False"
  using to_double_int [of "- 30474600"] sample_literals(5)
  by (simp add: dsub_def dadd_def dless_def)

lemma sample_thresholds:
  "dadd (to_double 273.15) (dmul (Finite 0.5) (to_double 0.2)) = Finite (1093 / 4)"
  "dadd (to_double 273.15) (dmul (Finite 0.5) (Finite 0)) = Finite (2402652809016115 / 2 ^ 43)"
  using sample_literals(2,4)
    to_double_grid_lt [where m = 3602879701896397 and e = "- 55"]
    to_double_grid_lt [where m = 2402652809016115 and e = "- 43"]
    to_double_eval [where x = "2402652809016115 / 2 ^ 43 + 3602879701896397 / 2 ^ 55"
      and k = 8 and m = 4807064836636672]
  by (simp_all add: dadd_def dmul_def signed_zero_def pow2_numeral rne_def)

lemma sample_means:
  "dadd (Finite 0) (Finite 280) = Finite 280"
  "dadd (Finite 280) (Finite 290) = Finite 570"
  "ddiv (Finite 570) (double_of_int 2) = Finite 285"
  "dadd (Finite 0) (Finite (2402652809016115 / 2 ^ 43)) = Finite (2402652809016115 / 2 ^ 43)"
  "ddiv (Finite (2402652809016115 / 2 ^ 43)) (double_of_int 1) =
     Finite (2402652809016115 / 2 ^ 43)"
  using to_double_int [of 280] to_double_int [of 570] to_double_int [of 2]
    to_double_int [of 285] to_double_int [of 1]
    to_double_grid_lt [where m = 2402652809016115 and e = "- 43"]
  by (simp_all add: dadd_def ddiv_def double_of_int_def pow2_numeral)

text \<open>
  The quotient of the two accumulators of the column average as they start, which the
  guard \<^verbatim>\<open>count > 0\<close> keeps from being formed.
\<close>

lemma zero_by_zero_count: "ddiv (Finite 0) (double_of_int 0) = NaN"
  by (simp add: ddiv_def double_of_int_def to_double_0)

section \<open>Properties of the evaluators\<close>

subsection \<open>Derivative paths that are not implemented\<close>

lemma ThermalConductivityTwoPhaseEvaluator_derivative_aborts:
  "ThermalConductivityTwoPhaseEvaluator_EvaluateFieldPartialDerivative ev S wrt_key result
     = Inl NotImplementedError"
  by (simp add: ThermalConductivityTwoPhaseEvaluator_EvaluateFieldPartialDerivative_def)

text \<open>
  Claim C3 asks that an evaluator without a derivative signals \<open>NotImplementedError\<close> and
  never hands back an unchanged Field. The two-phase thermal conductivity evaluator does
  abort (lemma above). The active-layer average temperature evaluator depends on the
  temperature, has no derivative either, and returns normally with the Field it was given,
  whatever the state, the key and the Field are.
\<close>

theorem ActiveLayerAverageTempEvaluator_derivative_returns_unchanged:
  "ActiveLayerAverageTempEvaluator_EvaluateFieldPartialDerivative ev S wrt_key result
     = Inr result"
  by (simp add: ActiveLayerAverageTempEvaluator_EvaluateFieldPartialDerivative_def)

subsection \<open>The column average\<close>

lemma EvaluateField_loop_filter:
  "EvaluateField_loop tt ts (s, c) =
     (foldl dadd s (filter (dleq tt) ts), c + int (length (filter (dleq tt) ts)))"
  by (induction ts arbitrary: s c) simp_all

lemma EvaluateField_value:
  assumes "field_data S (temp_key ev) = Some temp" and "temp ''cell'' = Some temp_c"
    and "result ''cell'' = Some res_c" and "res_c \<noteq> []"
  shows "ActiveLayerAverageTempEvaluator_EvaluateField ev S result =
     Inr (result(''cell'' \<mapsto> res_c[0 :=
       (if filter (dleq (trans_temp ev)) temp_c = [] then Finite 0
        else ddiv (foldl dadd (Finite 0) (filter (dleq (trans_temp ev)) temp_c))
               (double_of_int (int (length (filter (dleq (trans_temp ev)) temp_c)))))]))"
  using assms
  by (simp add: ActiveLayerAverageTempEvaluator_EvaluateField_def and_then_def
      ViewComponent_def GetFieldData_def EvaluateField_loop_filter)

text \<open>
  Claim C4. Let the temperature Field and the output Field have a \<open>cell\<close> component, the
  output with at least one cell. A cell qualifies when its temperature is at least the
  transition temperature, the double \<^verbatim>\<open>273.15 + 0.5*trans_width_\<close>, in the comparison of
  doubles (a not-a-number temperature never qualifies). If no cell qualifies,
  \<open>EvaluateField_\<close> writes the positive zero into cell \<open>0\<close> of the output and changes
  nothing else: the quotient of the accumulators, which would be not-a-number, is not
  formed. If at least one cell qualifies, it writes the mean of the qualifying temperatures
  as double arithmetic forms it: their sum, added up from cell \<open>0\<close> upwards starting from
  zero, divided by their number.
\<close>

theorem EvaluateField_column_average:
  assumes "field_data S (temp_key ev) = Some temp" and "temp ''cell'' = Some temp_c"
    and "result ''cell'' = Some res_c" and "res_c \<noteq> []"
  shows "((\<forall>t \<in> set temp_c. \<not> dleq (trans_temp ev) t) \<longrightarrow>
            ActiveLayerAverageTempEvaluator_EvaluateField ev S result =
              Inr (result(''cell'' \<mapsto> res_c[0 := Finite 0]))) \<and>
         ((\<exists>t \<in> set temp_c. dleq (trans_temp ev) t) \<longrightarrow>
            ActiveLayerAverageTempEvaluator_EvaluateField ev S result =
              Inr (result(''cell'' \<mapsto> res_c[0 :=
                ddiv (foldl dadd (Finite 0) (filter (dleq (trans_temp ev)) temp_c))
                  (double_of_int (int (length (filter (dleq (trans_temp ev)) temp_c))))])))"
proof -
  let ?q = "filter (dleq (trans_temp ev)) temp_c"
  have e: "(?q = []) = (\<forall>t \<in> set temp_c. \<not> dleq (trans_temp ev) t)"
    by (simp add: filter_empty_conv)
  show ?thesis
    using assms EvaluateField_value [of S ev temp temp_c result res_c] e by auto
qed

theorem EvaluateField_column_average_witness:
  "ActiveLayerAverageTempEvaluator_EvaluateField
     (column_evaluator (to_double 0.2) [] False)
     (column_State [Finite 260, Finite 270, to_double 273.2] [Finite 7, Finite 8] [])
     [''cell'' \<mapsto> [Finite 7, Finite 8]] = Inr [''cell'' \<mapsto> [Finite 0, Finite 8]] \<and>
   ActiveLayerAverageTempEvaluator_EvaluateField
     (column_evaluator (to_double 0.2) [] False)
     (column_State [Finite 270, Finite 280, Finite 290] [Finite 7, Finite 8] [])
     [''cell'' \<mapsto> [Finite 7, Finite 8]] = Inr [''cell'' \<mapsto> [Finite 285, Finite 8]] \<and>
   ActiveLayerAverageTempEvaluator_EvaluateField
     (column_evaluator (Finite 0) [] False)
     (column_State [Finite 270, to_double 273.15] [Finite 7, Finite 8] [])
     [''cell'' \<mapsto> [Finite 7, Finite 8]] =
       Inr [''cell'' \<mapsto> [Finite (2402652809016115 / 2 ^ 43), Finite 8]]"
  using
    EvaluateField_column_average [where
      S = "column_State [Finite 260, Finite 270, to_double 273.2] [Finite 7, Finite 8] []"
      and ev = "column_evaluator (to_double 0.2) [] False"
      and temp = "[''cell'' \<mapsto> [Finite 260, Finite 270, to_double 273.2]]"
      and temp_c = "[Finite 260, Finite 270, to_double 273.2]"
      and result = "[''cell'' \<mapsto> [Finite 7, Finite 8]]" and res_c = "[Finite 7, Finite 8]"]
    EvaluateField_column_average [where
      S = "column_State [Finite 270, Finite 280, Finite 290] [Finite 7, Finite 8] []"
      and ev = "column_evaluator (to_double 0.2) [] False"
      and temp = "[''cell'' \<mapsto> [Finite 270, Finite 280, Finite 290]]"
      and temp_c = "[Finite 270, Finite 280, Finite 290]"
      and result = "[''cell'' \<mapsto> [Finite 7, Finite 8]]" and res_c = "[Finite 7, Finite 8]"]
    EvaluateField_column_average [where
      S = "column_State [Finite 270, to_double 273.15] [Finite 7, Finite 8] []"
      and ev = "column_evaluator (Finite 0) [] False"
      and temp = "[''cell'' \<mapsto> [Finite 270, to_double 273.15]]"
      and temp_c = "[Finite 270, to_double 273.15]"
      and result = "[''cell'' \<mapsto> [Finite 7, Finite 8]]" and res_c = "[Finite 7, Finite 8]"]
    sample_thresholds sample_literals sample_means
  by (simp add: trans_temp_def dleq_def)

subsection \<open>The first request forces a recomputation\<close>

lemma base_UpdateField_updates:
  "SecondaryVariableFieldEvaluator_UpdateField evaluate key S = Inr S' \<Longrightarrow>
     updates S' = updates S @ [key]"
  by (auto simp: SecondaryVariableFieldEvaluator_UpdateField_def and_then_def
      split: sum.splits)

lemma UpdateField_updates:
  "ActiveLayerAverageTempEvaluator_UpdateField ev S = Inr S' \<Longrightarrow>
     updates S' = updates S @ [my_key ev]"
  unfolding ActiveLayerAverageTempEvaluator_UpdateField_def
  by (rule base_UpdateField_updates)

lemma UpdateField_ready:
  assumes "column_ready ev S"
  shows "\<exists>S'. ActiveLayerAverageTempEvaluator_UpdateField ev S = Inr S' \<and>
           updates S' = updates S @ [my_key ev] \<and> column_ready ev S'"
proof -
  from assms obtain temp temp_c own res_c where
    h: "field_data S (temp_key ev) = Some temp" "temp ''cell'' = Some temp_c"
       "field_data S (my_key ev) = Some own" "own ''cell'' = Some res_c" "res_c \<noteq> []"
    by (auto simp: column_ready_def split: option.splits)
  from EvaluateField_value [of S ev temp temp_c own res_c] h
  obtain v where
    e: "ActiveLayerAverageTempEvaluator_EvaluateField ev S own
          = Inr (own(''cell'' \<mapsto> res_c[0 := v]))"
    by blast
  let ?S' = "S\<lparr>field_data := (field_data S)(my_key ev \<mapsto> own(''cell'' \<mapsto> res_c[0 := v])),
               updates := updates S @ [my_key ev]\<rparr>"
  have u: "ActiveLayerAverageTempEvaluator_UpdateField ev S = Inr ?S'"
    using h e
    by (simp add: ActiveLayerAverageTempEvaluator_UpdateField_def
        SecondaryVariableFieldEvaluator_UpdateField_def and_then_def GetFieldData_def)
  have r: "column_ready ev ?S'"
    using h by (simp add: column_ready_def)
  show ?thesis using u r by simp
qed

lemma column_ready_requests [simp]:
  "column_ready (ev\<lparr>requests := r\<rparr>) S = column_ready ev S"
  by (simp add: column_ready_def split: option.splits)

lemma base_HasFieldChanged_cases:
  "SecondaryVariableFieldEvaluator_HasFieldChanged update ev S request dep_changed = Inr (c, ev', S')
   \<longleftrightarrow>
   (if list_ex (\<lambda>dep. dep_changed dep (my_key ev)) (dependencies ev) \<or>
       request \<notin> set (requests ev)
    then c \<and> ev' = ev\<lparr>requests := List.insert request (requests ev)\<rparr> \<and> update S = Inr S'
    else \<not> c \<and> ev' = ev \<and> S' = S)"
  by (auto simp: SecondaryVariableFieldEvaluator_HasFieldChanged_def and_then_def
      split: sum.splits)

text \<open>
  Claim C5. The base protocol, which every Secondary evaluator inherits (in the sources
  the two-phase thermal conductivity and the lake source evaluators), whatever its
  \<^verbatim>\<open>EvaluateField_\<close> is: a request of a consumer that has not asked before, if it
  returns, reports changed, has recomputed the output once and has entered the consumer;
  it does return when the recomputation does; and a later request of an entered consumer
  for which no dependency reports changed returns unchanged and leaves the evaluator and
  the registry, with its recomputation history, exactly as they were.

  The evaluator that overrides the method and carries the flag \<open>updated_once\<close>: while the
  flag is false, or for a consumer that has not asked before, a request that returns
  reports changed, leaves the flag set and the consumer entered, and has recomputed the
  output (once by the base protocol when that recomputes, and once more by the override
  when the flag was false); the request does return whenever the registry holds the Fields
  the recomputation reads; and once the flag is set, a request of an entered consumer for
  which no dependency reports changed returns unchanged and leaves everything as it was.
\<close>

theorem HasFieldChanged_first_request_forces_update:
  "(request \<notin> set (requests ev) \<and>
      SecondaryVariableFieldEvaluator_HasFieldChanged
        (SecondaryVariableFieldEvaluator_UpdateField evaluate (my_key ev))
        ev S request dep_changed = Inr (changed, ev', S') \<longrightarrow>
      changed \<and> updates S' = updates S @ [my_key ev] \<and> request \<in> set (requests ev')) \<and>
   (request \<notin> set (requests ev) \<and>
      SecondaryVariableFieldEvaluator_UpdateField evaluate (my_key ev) S = Inr S1 \<longrightarrow>
      SecondaryVariableFieldEvaluator_HasFieldChanged
        (SecondaryVariableFieldEvaluator_UpdateField evaluate (my_key ev))
        ev S request dep_changed
        = Inr (True, ev\<lparr>requests := List.insert request (requests ev)\<rparr>, S1)) \<and>
   (request \<in> set (requests ev) \<and>
      \<not> list_ex (\<lambda>dep. dep_changed dep (my_key ev)) (dependencies ev) \<longrightarrow>
      SecondaryVariableFieldEvaluator_HasFieldChanged
        (SecondaryVariableFieldEvaluator_UpdateField evaluate (my_key ev))
        ev S request dep_changed = Inr (False, ev, S)) \<and>
   ((\<not> updated_once al \<or> request \<notin> set (requests al)) \<and>
      ActiveLayerAverageTempEvaluator_HasFieldChanged al S request dep_changed
        = Inr (changed, al', S') \<longrightarrow>
      changed \<and> updated_once al' \<and> request \<in> set (requests al') \<and>
      updates S' = updates S @
        (if list_ex (\<lambda>dep. dep_changed dep (my_key al)) (dependencies al) \<or>
            request \<notin> set (requests al) then [my_key al] else []) @
        (if updated_once al then [] else [my_key al])) \<and>
   ((\<not> updated_once al \<or> request \<notin> set (requests al)) \<and> column_ready al S \<longrightarrow>
      (\<exists>al2 S2. ActiveLayerAverageTempEvaluator_HasFieldChanged al S request dep_changed
        = Inr (True, al2, S2))) \<and>
   (updated_once al \<and> request \<in> set (requests al) \<and>
      \<not> list_ex (\<lambda>dep. dep_changed dep (my_key al)) (dependencies al) \<longrightarrow>
      ActiveLayerAverageTempEvaluator_HasFieldChanged al S request dep_changed
        = Inr (False, al, S))"
proof -
  let ?base = "SecondaryVariableFieldEvaluator_HasFieldChanged
        (SecondaryVariableFieldEvaluator_UpdateField evaluate (my_key ev))
        ev S request dep_changed"
  let ?over = "ActiveLayerAverageTempEvaluator_HasFieldChanged al S request dep_changed"
  let ?dep = "list_ex (\<lambda>dep. dep_changed dep (my_key al)) (dependencies al)"
  have a1: "request \<notin> set (requests ev) \<and> ?base = Inr (changed, ev', S') \<longrightarrow>
      changed \<and> updates S' = updates S @ [my_key ev] \<and> request \<in> set (requests ev')"
    by (auto simp: base_HasFieldChanged_cases dest: base_UpdateField_updates)
  have a2: "request \<notin> set (requests ev) \<and>
      SecondaryVariableFieldEvaluator_UpdateField evaluate (my_key ev) S = Inr S1 \<longrightarrow>
      ?base = Inr (True, ev\<lparr>requests := List.insert request (requests ev)\<rparr>, S1)"
    by (simp add: base_HasFieldChanged_cases)
  have a3: "request \<in> set (requests ev) \<and>
      \<not> list_ex (\<lambda>dep. dep_changed dep (my_key ev)) (dependencies ev) \<longrightarrow>
      ?base = Inr (False, ev, S)"
    by (simp add: base_HasFieldChanged_cases)
  have b1: "(\<not> updated_once al \<or> request \<notin> set (requests al)) \<and>
      ?over = Inr (changed, al', S') \<longrightarrow>
      changed \<and> updated_once al' \<and> request \<in> set (requests al') \<and>
      updates S' = updates S @
        (if ?dep \<or> request \<notin> set (requests al) then [my_key al] else []) @
        (if updated_once al then [] else [my_key al])"
  proof (rule impI)
    assume h: "(\<not> updated_once al \<or> request \<notin> set (requests al)) \<and>
      ?over = Inr (changed, al', S')"
    then obtain c ev1 S1 where
      b: "SecondaryVariableFieldEvaluator_HasFieldChanged
            (ActiveLayerAverageTempEvaluator_UpdateField al) al S request dep_changed
          = Inr (c, ev1, S1)" and
      o: "(if \<not> updated_once ev1
           then and_then (ActiveLayerAverageTempEvaluator_UpdateField ev1 S1) (\<lambda>S2.
                  Inr (True, ev1\<lparr>updated_once := True\<rparr>, S2))
           else Inr (c, ev1, S1)) = Inr (changed, al', S')"
      by (auto simp: ActiveLayerAverageTempEvaluator_HasFieldChanged_def and_then_def
          split: sum.splits)
    show "changed \<and> updated_once al' \<and> request \<in> set (requests al') \<and>
      updates S' = updates S @
        (if ?dep \<or> request \<notin> set (requests al) then [my_key al] else []) @
        (if updated_once al then [] else [my_key al])"
    proof (cases "?dep \<or> request \<notin> set (requests al)")
      case True
      with b have c: "c" and e: "ev1 = al\<lparr>requests := List.insert request (requests al)\<rparr>"
        and u: "ActiveLayerAverageTempEvaluator_UpdateField al S = Inr S1"
        by (simp_all add: base_HasFieldChanged_cases)
      from UpdateField_updates [OF u] have u1: "updates S1 = updates S @ [my_key al]" .
      show ?thesis
      proof (cases "updated_once al")
        case uo: True
        with o e c have "changed" "al' = ev1" "S' = S1" by simp_all
        with e u1 uo True show ?thesis by simp
      next
        case uo: False
        with o e obtain S2 where
          u2: "ActiveLayerAverageTempEvaluator_UpdateField ev1 S1 = Inr S2" and
          r: "changed" "al' = ev1\<lparr>updated_once := True\<rparr>" "S' = S2"
          by (auto simp: and_then_def split: sum.splits)
        from UpdateField_updates [OF u2] e have "updates S2 = updates S1 @ [my_key al]"
          by simp
        with r e u1 uo True show ?thesis by simp
      qed
    next
      case False
      with b have c: "\<not> c" and e: "ev1 = al" and s: "S1 = S"
        by (simp_all add: base_HasFieldChanged_cases)
      from False h have uo: "\<not> updated_once al" by auto
      with o e s obtain S2 where
        u2: "ActiveLayerAverageTempEvaluator_UpdateField al S = Inr S2" and
        r: "changed" "al' = al\<lparr>updated_once := True\<rparr>" "S' = S2"
        by (auto simp: and_then_def split: sum.splits)
      from UpdateField_updates [OF u2] r uo False show ?thesis by auto
    qed
  qed
  have b2: "(\<not> updated_once al \<or> request \<notin> set (requests al)) \<and> column_ready al S \<longrightarrow>
      (\<exists>al2 S2. ?over = Inr (True, al2, S2))"
  proof (rule impI)
    assume h: "(\<not> updated_once al \<or> request \<notin> set (requests al)) \<and> column_ready al S"
    from h UpdateField_ready [of al S] obtain S1 where
      s1: "ActiveLayerAverageTempEvaluator_UpdateField al S = Inr S1" "column_ready al S1"
      by blast
    show "\<exists>al2 S2. ?over = Inr (True, al2, S2)"
    proof (cases "?dep \<or> request \<notin> set (requests al)")
      case True
      let ?ev1 = "al\<lparr>requests := List.insert request (requests al)\<rparr>"
      from True s1 have b: "SecondaryVariableFieldEvaluator_HasFieldChanged
            (ActiveLayerAverageTempEvaluator_UpdateField al) al S request dep_changed
          = Inr (True, ?ev1, S1)"
        by (simp add: base_HasFieldChanged_cases)
      from s1(2) have "column_ready ?ev1 S1" by simp
      from UpdateField_ready [OF this] obtain S2 where
        s2: "ActiveLayerAverageTempEvaluator_UpdateField ?ev1 S1 = Inr S2"
        by blast
      show ?thesis using b s2
        by (simp add: ActiveLayerAverageTempEvaluator_HasFieldChanged_def and_then_def)
    next
      case False
      with h have uo: "\<not> updated_once al" by auto
      from False have b: "SecondaryVariableFieldEvaluator_HasFieldChanged
            (ActiveLayerAverageTempEvaluator_UpdateField al) al S request dep_changed
          = Inr (False, al, S)"
        by (simp add: base_HasFieldChanged_cases)
      show ?thesis using b s1 uo
        by (simp add: ActiveLayerAverageTempEvaluator_HasFieldChanged_def and_then_def)
    qed
  qed
  have b3: "updated_once al \<and> request \<in> set (requests al) \<and> \<not> ?dep \<longrightarrow>
      ?over = Inr (False, al, S)"
    by (simp add: ActiveLayerAverageTempEvaluator_HasFieldChanged_def and_then_def
        SecondaryVariableFieldEvaluator_HasFieldChanged_def)
  show ?thesis
    by (rule conjI [OF a1 conjI [OF a2 conjI [OF a3 conjI [OF b1 conjI [OF b2 b3]]]]])
qed

theorem HasFieldChanged_first_request_forces_update_witness:
  "SecondaryVariableFieldEvaluator_HasFieldChanged
     (SecondaryVariableFieldEvaluator_UpdateField
        (ActiveLayerAverageTempEvaluator_EvaluateField
           (column_evaluator (to_double 0.2) [] False)) ''avg'')
     (column_evaluator (to_double 0.2) [] False)
     (column_State [Finite 270, Finite 280, Finite 290] [Finite 0] [])
     ''pk'' (\<lambda>dep consumer. False)
   = Inr (True, column_evaluator (to_double 0.2) [''pk''] False,
          column_State [Finite 270, Finite 280, Finite 290] [Finite 285] [''avg'']) \<and>
   SecondaryVariableFieldEvaluator_HasFieldChanged
     (SecondaryVariableFieldEvaluator_UpdateField
        (ActiveLayerAverageTempEvaluator_EvaluateField
           (column_evaluator (to_double 0.2) [''pk''] False)) ''avg'')
     (column_evaluator (to_double 0.2) [''pk''] False)
     (column_State [Finite 270, Finite 280, Finite 290] [Finite 285] [''avg''])
     ''pk'' (\<lambda>dep consumer. False)
   = Inr (False, column_evaluator (to_double 0.2) [''pk''] False,
          column_State [Finite 270, Finite 280, Finite 290] [Finite 285] [''avg'']) \<and>
   column_ready (column_evaluator (to_double 0.2) [] False)
     (column_State [Finite 270, Finite 280, Finite 290] [Finite 0] []) \<and>
   ActiveLayerAverageTempEvaluator_HasFieldChanged
     (column_evaluator (to_double 0.2) [] False)
     (column_State [Finite 270, Finite 280, Finite 290] [Finite 0] [])
     ''pk'' (\<lambda>dep consumer. False)
   = Inr (True, column_evaluator (to_double 0.2) [''pk''] True,
          column_State [Finite 270, Finite 280, Finite 290] [Finite 285] [''avg'', ''avg'']) \<and>
   ActiveLayerAverageTempEvaluator_HasFieldChanged
     (column_evaluator (to_double 0.2) [''pk''] True)
     (column_State [Finite 270, Finite 280, Finite 290] [Finite 285] [''avg'', ''avg''])
     ''pk'' (\<lambda>dep consumer. False)
   = Inr (False, column_evaluator (to_double 0.2) [''pk''] True,
          column_State [Finite 270, Finite 280, Finite 290] [Finite 285] [''avg'', ''avg''])"
proof -
  have e: "ActiveLayerAverageTempEvaluator_EvaluateField
     (column_evaluator (to_double 0.2) rs once)
     (column_State [Finite 270, Finite 280, Finite 290] [v] ups) [''cell'' \<mapsto> [v]]
     = Inr [''cell'' \<mapsto> [Finite 285]]" for rs once v ups
    using sample_thresholds sample_means
    by (simp add: ActiveLayerAverageTempEvaluator_EvaluateField_def and_then_def
        ViewComponent_def GetFieldData_def trans_temp_def dleq_def)
  have u: "SecondaryVariableFieldEvaluator_UpdateField
        (ActiveLayerAverageTempEvaluator_EvaluateField
           (column_evaluator (to_double 0.2) rs once)) ''avg''
        (column_State [Finite 270, Finite 280, Finite 290] [v] ups)
     = Inr (column_State [Finite 270, Finite 280, Finite 290] [Finite 285] (ups @ [''avg'']))"
    for rs once v ups
    using e [of rs once v ups]
    by (simp add: SecondaryVariableFieldEvaluator_UpdateField_def and_then_def
        GetFieldData_def)
  note t1 = HasFieldChanged_first_request_forces_update [where
      ev = "column_evaluator (to_double 0.2) [] False"
      and evaluate = "ActiveLayerAverageTempEvaluator_EvaluateField
           (column_evaluator (to_double 0.2) [] False)"
      and S = "column_State [Finite 270, Finite 280, Finite 290] [Finite 0] []"
      and request = "''pk''" and dep_changed = "\<lambda>dep consumer. False"
      and ?S1.0 = "column_State [Finite 270, Finite 280, Finite 290] [Finite 285] [''avg'']"
      and al = "column_evaluator (to_double 0.2) [] False"]
  note t2 = HasFieldChanged_first_request_forces_update [where
      ev = "column_evaluator (to_double 0.2) [''pk''] False"
      and evaluate = "ActiveLayerAverageTempEvaluator_EvaluateField
           (column_evaluator (to_double 0.2) [''pk''] False)"
      and S = "column_State [Finite 270, Finite 280, Finite 290] [Finite 285] [''avg'']"
      and request = "''pk''" and dep_changed = "\<lambda>dep consumer. False"
      and al = "column_evaluator (to_double 0.2) [''pk''] False"]
  note t3 = HasFieldChanged_first_request_forces_update [where
      ev = "column_evaluator (to_double 0.2) [''pk''] True"
      and evaluate = "ActiveLayerAverageTempEvaluator_EvaluateField
           (column_evaluator (to_double 0.2) [''pk''] True)"
      and al = "column_evaluator (to_double 0.2) [''pk''] True"
      and S = "column_State [Finite 270, Finite 280, Finite 290] [Finite 285] [''avg'', ''avg'']"
      and request = "''pk''" and dep_changed = "\<lambda>dep consumer. False"]
  have w1: "SecondaryVariableFieldEvaluator_HasFieldChanged
     (SecondaryVariableFieldEvaluator_UpdateField
        (ActiveLayerAverageTempEvaluator_EvaluateField
           (column_evaluator (to_double 0.2) [] False)) ''avg'')
     (column_evaluator (to_double 0.2) [] False)
     (column_State [Finite 270, Finite 280, Finite 290] [Finite 0] [])
     ''pk'' (\<lambda>dep consumer. False)
   = Inr (True, column_evaluator (to_double 0.2) [''pk''] False,
          column_State [Finite 270, Finite 280, Finite 290] [Finite 285] [''avg''])"
    using t1 u [of "[]" False "Finite 0" "[]"] by simp
  have w2: "SecondaryVariableFieldEvaluator_HasFieldChanged
     (SecondaryVariableFieldEvaluator_UpdateField
        (ActiveLayerAverageTempEvaluator_EvaluateField
           (column_evaluator (to_double 0.2) [''pk''] False)) ''avg'')
     (column_evaluator (to_double 0.2) [''pk''] False)
     (column_State [Finite 270, Finite 280, Finite 290] [Finite 285] [''avg''])
     ''pk'' (\<lambda>dep consumer. False)
   = Inr (False, column_evaluator (to_double 0.2) [''pk''] False,
          column_State [Finite 270, Finite 280, Finite 290] [Finite 285] [''avg''])"
    using t2 by simp
  have w3: "column_ready (column_evaluator (to_double 0.2) [] False)
     (column_State [Finite 270, Finite 280, Finite 290] [Finite 0] [])"
    by (simp add: column_ready_def)
  have w4: "ActiveLayerAverageTempEvaluator_HasFieldChanged
     (column_evaluator (to_double 0.2) [] False)
     (column_State [Finite 270, Finite 280, Finite 290] [Finite 0] [])
     ''pk'' (\<lambda>dep consumer. False)
   = Inr (True, column_evaluator (to_double 0.2) [''pk''] True,
          column_State [Finite 270, Finite 280, Finite 290] [Finite 285] [''avg'', ''avg''])"
    using u [of "[]" False "Finite 0" "[]"] u [of "[''pk'']" False "Finite 285" "[''avg'']"]
    by (simp add: ActiveLayerAverageTempEvaluator_HasFieldChanged_def and_then_def
        SecondaryVariableFieldEvaluator_HasFieldChanged_def
        ActiveLayerAverageTempEvaluator_UpdateField_def)
  have w5: "ActiveLayerAverageTempEvaluator_HasFieldChanged
     (column_evaluator (to_double 0.2) [''pk''] True)
     (column_State [Finite 270, Finite 280, Finite 290] [Finite 285] [''avg'', ''avg''])
     ''pk'' (\<lambda>dep consumer. False)
   = Inr (False, column_evaluator (to_double 0.2) [''pk''] True,
          column_State [Finite 270, Finite 280, Finite 290] [Finite 285] [''avg'', ''avg''])"
    using t3 by simp
  from w1 w2 w3 w4 w5 show ?thesis by simp
qed

section \<open>Properties of the coupled preconditioner assembler\<close>

subsection \<open>Halving the scale factor\<close>

lemma normal_rangeI:
  assumes "pow2 k \<le> \<bar>z\<bar>" and "\<bar>z\<bar> < pow2 (k + 1)" and "- 1021 \<le> k" and "k \<le> 1022"
  shows "normal_range z"
proof -
  have "pow2 (- 1021) \<le> pow2 k" "pow2 (k + 1) \<le> pow2 1023"
    using assms(3,4) by (simp_all add: pow2_le_iff)
  with assms(1,2) show ?thesis unfolding normal_range_def by linarith
qed

lemma reciprocal_half:
  assumes "0 < a" and "normal_range (1 / a)"
  shows "\<exists>\<rho>. \<rho> \<noteq> 0 \<and> ddiv (Finite 1) (Finite a) = Finite \<rho> \<and>
           ddiv (Finite 1) (Finite (2 * a)) = Finite (\<rho> / 2)"
proof -
  from to_double_half [OF assms(2)] obtain y where
    y: "y \<noteq> 0" "to_double (1 / a) = Finite y" "to_double (1 / a / 2) = Finite (y / 2)"
    by blast
  have e: "1 / (2 * a) = 1 / a / 2" by simp
  have 1: "ddiv (Finite 1) (Finite a) = Finite y"
    using assms(1) y(2) by (simp add: ddiv_def)
  have "ddiv (Finite 1) (Finite (2 * a)) = to_double (1 / (2 * a))"
    using assms(1) by (simp add: ddiv_def)
  also have "\<dots> = Finite (y / 2)"
    unfolding e by (rule y(3))
  finally show ?thesis using y(1) 1 by blast
qed

lemma scale_half_elem:
  assumes "\<rho> \<noteq> 0" and "product_in_range (Finite \<rho>) x"
  shows "dmul (Finite (\<rho> / 2)) x = ddiv (dmul (Finite \<rho>) x) (Finite 2)"
proof (cases x)
  case (Finite v)
  show ?thesis
  proof (cases "v = 0")
    case True
    with Finite show ?thesis
      by (simp add: dmul_def ddiv_def signed_zero_def)
  next
    case False
    with Finite assms(2) have "normal_range (\<rho> * v)"
      by (simp add: product_in_range_def)
    from to_double_half [OF this] obtain y where
      y: "y \<noteq> 0" "to_double (\<rho> * v) = Finite y" "to_double (\<rho> * v / 2) = Finite (y / 2)"
         "to_double (y / 2) = Finite (y / 2)"
      by blast
    with Finite False assms(1) show ?thesis
      by (simp add: dmul_def ddiv_def)
  qed
next
  case NegZero
  then show ?thesis using assms(1) by (simp add: dmul_def ddiv_def signed_zero_def)
next
  case PInf
  then show ?thesis using assms(1) by (simp add: dmul_def ddiv_def signed_inf_def)
next
  case MInf
  then show ?thesis using assms(1) by (simp add: dmul_def ddiv_def signed_inf_def)
next
  case NaN
  then show ?thesis by (simp add: dmul_def ddiv_def)
qed

lemma Scale_half:
  assumes "0 < a" and "normal_range (1 / a)"
    and "list_all (product_in_range (ddiv (Finite 1) (Finite a))) v"
  shows "Scale (ddiv (Finite 1) (Finite (2 * a))) v =
           map (\<lambda>c. ddiv c (Finite 2)) (Scale (ddiv (Finite 1) (Finite a)) v)"
proof -
  from reciprocal_half [OF assms(1,2)] obtain \<rho> where
    r: "\<rho> \<noteq> 0" "ddiv (Finite 1) (Finite a) = Finite \<rho>"
       "ddiv (Finite 1) (Finite (2 * a)) = Finite (\<rho> / 2)"
    by blast
  have "dmul (Finite (\<rho> / 2)) x = ddiv (dmul (Finite \<rho>) x) (Finite 2)" if "x \<in> set v" for x
    using that assms(3) r(1,2) by (intro scale_half_elem) (simp_all add: list_all_iff)
  then show ?thesis
    by (simp add: Scale_def r)
qed

text \<open>
  Outside that range the halves can differ: the reciprocal of the subnormal step
  \<open>2 ^ - 1024\<close> overflows to infinity, and so does its product with \<open>1\<close> and the half of
  that; the reciprocal of twice the step is the finite double \<open>2 ^ 1023\<close>.
\<close>

lemma to_double_overflow: "to_double (pow2 1024) = PInf"
proof -
  have i: "ilog2 (pow2 1024) = 1024"
    by (rule ilog2_unique) (simp_all add: pow2_less_iff)
  have "pow2 1024 / pow2 972 = of_int (2 ^ 52)"
    by (simp add: pow2_numeral)
  then have "of_int (rne (pow2 1024 / pow2 972)) * pow2 972 = pow2 1024"
    by (simp only: rne_of_int) (simp add: pow2_numeral)
  then show ?thesis
    by (simp add: to_double_def i)
qed

lemma halving_needs_range:
  "dmul (ddiv (Finite 1) (Finite (pow2 (- 1024)))) (Finite 1) = PInf"
  "ddiv (dmul (ddiv (Finite 1) (Finite (pow2 (- 1024)))) (Finite 1)) (Finite 2) = PInf"
  "dmul (ddiv (Finite 1) (Finite (2 * pow2 (- 1024)))) (Finite 1) = Finite (pow2 1023)"
proof -
  have r: "ddiv (Finite 1) (Finite (pow2 (- 1024))) = PInf"
    using to_double_overflow by (simp add: ddiv_def pow2_numeral)
  show "dmul (ddiv (Finite 1) (Finite (pow2 (- 1024)))) (Finite 1) = PInf"
    by (simp add: r dmul_def signed_inf_def)
  then show "ddiv (dmul (ddiv (Finite 1) (Finite (pow2 (- 1024)))) (Finite 1)) (Finite 2) = PInf"
    by (simp add: ddiv_def signed_inf_def)
  have g: "to_double (pow2 1023) = Finite (pow2 1023)"
    using to_double_grid_lt [where m = "2 ^ 52" and e = 971] by (simp add: pow2_numeral)
  have "1 / (2 * pow2 (- 1024)) = pow2 1023"
    by (simp add: pow2_numeral)
  then have "ddiv (Finite 1) (Finite (2 * pow2 (- 1024))) = Finite (pow2 1023)"
    using g by (simp add: ddiv_def)
  then show "dmul (ddiv (Finite 1) (Finite (2 * pow2 (- 1024)))) (Finite 1) = Finite (pow2 1023)"
    using g by (simp add: dmul_def)
qed

subsection \<open>The installed off-diagonal blocks\<close>

lemma print_derivatives_frame:
  "(snd (print_derivatives Ccc Dcc p T cs pk))\<lparr>printed := x\<rparr> = pk\<lparr>printed := x\<rparr>"
  by (induction cs arbitrary: pk)
     (simp_all add: then_run_def attempt_def print_def returns_def split: sum.splits)

lemma print_derivatives_trace:
  assumes "print_derivatives Ccc Dcc p T cs pk = (r, pk')"
  shows "trace pk' = trace pk \<and> mfd_preconditioner pk' = mfd_preconditioner pk \<and>
         S_next pk' = S_next pk"
proof -
  have "pk'\<lparr>printed := []\<rparr> = pk\<lparr>printed := []\<rparr>"
    using print_derivatives_frame [where x = "[]" and Ccc = Ccc and Dcc = Dcc and p = p and T = T
        and cs = cs and pk = pk] assms by simp
  then have "trace (pk'\<lparr>printed := []\<rparr>) = trace (pk\<lparr>printed := []\<rparr>)"
    and "mfd_preconditioner (pk'\<lparr>printed := []\<rparr>) = mfd_preconditioner (pk\<lparr>printed := []\<rparr>)"
    and "S_next (pk'\<lparr>printed := []\<rparr>) = S_next (pk\<lparr>printed := []\<rparr>)"
    by simp_all
  then show ?thesis by simp
qed

lemma update_precon_installed:
  assumes "E_SetOffDiagonals C D \<in> set (trace (snd (update_precon hfdc t up h pk)))"
    and "E_SetOffDiagonals C D \<notin> set (trace pk)"
  shows "\<exists>S1 S2 dA dB Ccc Dcc.
           hfdc (A_key pk) (name pk) (y2_key pk) (S_next pk) = Inr S1 \<and>
           hfdc (B_key pk) (name pk) (y1_key pk) S1 = Inr S2 \<and>
           field_data S2 (dA_dy2_key pk) = Some dA \<and> dA ''cell'' = Some Ccc \<and>
           field_data S2 (dB_dy1_key pk) = Some dB \<and> dB ''cell'' = Some Dcc \<and>
           C = Scale (ddiv (Finite 1) h) Ccc \<and> D = Scale (ddiv (Finite 1) h) Dcc"
  using assms
  by (auto simp: update_precon_def install_off_diagonals_def then_run_def emit_def
      request_derivative_def read_field_def
      attempt_def returns_def pc_call_def print_def GetFieldData_def ViewComponent_def
      split: sum.splits if_splits option.splits prod.splits
      dest!: print_derivatives_trace)

lemma update_precon_installs:
  assumes "\<not> decoupled pk"
    and "hfdc (A_key pk) (name pk) (y2_key pk) (S_next pk) = Inr S1"
    and "hfdc (B_key pk) (name pk) (y1_key pk) S1 = Inr S2"
    and "field_data S2 (dA_dy2_key pk) = Some dA" and "dA ''cell'' = Some Ccc"
    and "field_data S2 (dB_dy1_key pk) = Some dB" and "dB ''cell'' = Some Dcc"
    and "\<not> (out pk \<and> includesVerbLevel (verbosity pk) VERB_EXTREME True)"
    and "mfd_preconditioner pk = Some m"
  shows "fst (update_precon hfdc t up h pk) = Inr () \<and>
         calls_of (update_precon hfdc t up h) pk =
           [E_StrongMPC_update_precon t up h,
            E_HasFieldDerivativeChanged (A_key pk) (name pk) (y2_key pk),
            E_HasFieldDerivativeChanged (B_key pk) (name pk) (y1_key pk),
            E_GetFieldData (dA_dy2_key pk), E_GetFieldData (dB_dy1_key pk),
            E_SetOffDiagonals (map (dmul (ddiv (Finite 1) h)) Ccc)
                              (map (dmul (ddiv (Finite 1) h)) Dcc),
            E_ComputeSchurComplement
              (dless (dabs (dsub (time S2) (Finite 30474600))) (to_double 68690.3)),
            E_UpdatePreconditioner]"
proof -
  have quiet: "(out pk \<and> includesVerbLevel (verbosity pk) VERB_EXTREME True) = False"
    using assms(8) by simp
  show ?thesis
    using assms(1-7,9)
    by (simp add: update_precon_def install_off_diagonals_def then_run_def emit_def
        request_derivative_def read_field_def calls_of_def Scale_def quiet
        attempt_def returns_def pc_call_def print_def GetFieldData_def ViewComponent_def)
qed

text \<open>
  Claim C2, as the code has it. Let \<^verbatim>\<open>update_precon\<close> start with an empty call
  history. Whenever the run installs off-diagonal blocks \<open>C\<close> and \<open>D\<close> (a call of
  \<^verbatim>\<open>SetOffDiagonals\<close>), both derivative requests have returned, the State they leave
  holds the two coupling-derivative Fields, and \<open>C\<close> and \<open>D\<close> are the cell values of
  these Fields, each multiplied by the double \<^verbatim>\<open>1./h\<close>: the rounded reciprocal of the
  step, with the product rounded again. When the step is a positive finite double whose
  reciprocal and whose products with the cell values stay in the normal range (or the cell
  value is a zero, an infinity or not-a-number), the blocks installed with the step of
  twice the value are exactly the halves of those installed with \<open>h\<close>, for the same object
  and the same evaluators. And the blocks are installed: in coupled mode, when both
  requests return, both Fields are there, the coupled matrix exists and the diagnostics are
  not triggered, the run does call \<^verbatim>\<open>SetOffDiagonals\<close> with these products.
\<close>

theorem update_precon_scales_by_reciprocal:
  "(E_SetOffDiagonals C D \<in> set (trace (snd (update_precon hfdc t up h (pk\<lparr>trace := []\<rparr>)))) \<longrightarrow>
      (\<exists>S1 S2 dA dB Ccc Dcc.
         hfdc (A_key pk) (name pk) (y2_key pk) (S_next pk) = Inr S1 \<and>
         hfdc (B_key pk) (name pk) (y1_key pk) S1 = Inr S2 \<and>
         field_data S2 (dA_dy2_key pk) = Some dA \<and> dA ''cell'' = Some Ccc \<and>
         field_data S2 (dB_dy1_key pk) = Some dB \<and> dB ''cell'' = Some Dcc \<and>
         C = map (dmul (ddiv (Finite 1) h)) Ccc \<and> D = map (dmul (ddiv (Finite 1) h)) Dcc)) \<and>
   (0 < a \<and> normal_range (1 / a) \<and>
    hfdc (A_key pk) (name pk) (y2_key pk) (S_next pk) = Inr T1 \<and>
    hfdc (B_key pk) (name pk) (y1_key pk) T1 = Inr T2 \<and>
    field_data T2 (dA_dy2_key pk) = Some fA \<and> fA ''cell'' = Some cA \<and>
    field_data T2 (dB_dy1_key pk) = Some fB \<and> fB ''cell'' = Some cB \<and>
    list_all (product_in_range (ddiv (Finite 1) (Finite a))) (cA @ cB) \<and>
    E_SetOffDiagonals C1 D1 \<in>
      set (trace (snd (update_precon hfdc t up (Finite a) (pk\<lparr>trace := []\<rparr>)))) \<and>
    E_SetOffDiagonals C2 D2 \<in>
      set (trace (snd (update_precon hfdc t up (Finite (2 * a)) (pk\<lparr>trace := []\<rparr>)))) \<longrightarrow>
      C2 = map (\<lambda>c. ddiv c (Finite 2)) C1 \<and> D2 = map (\<lambda>c. ddiv c (Finite 2)) D1) \<and>
   (\<not> decoupled pk \<and>
    hfdc (A_key pk) (name pk) (y2_key pk) (S_next pk) = Inr T1 \<and>
    hfdc (B_key pk) (name pk) (y1_key pk) T1 = Inr T2 \<and>
    field_data T2 (dA_dy2_key pk) = Some fA \<and> fA ''cell'' = Some cA \<and>
    field_data T2 (dB_dy1_key pk) = Some fB \<and> fB ''cell'' = Some cB \<and>
    \<not> (out pk \<and> includesVerbLevel (verbosity pk) VERB_EXTREME True) \<and>
    mfd_preconditioner pk = Some m \<longrightarrow>
      E_SetOffDiagonals (map (dmul (ddiv (Finite 1) h)) cA) (map (dmul (ddiv (Finite 1) h)) cB) \<in>
        set (trace (snd (update_precon hfdc t up h (pk\<lparr>trace := []\<rparr>)))))"
proof -
  have p1: "E_SetOffDiagonals C D \<in> set (trace (snd (update_precon hfdc t up h (pk\<lparr>trace := []\<rparr>)))) \<longrightarrow>
      (\<exists>S1 S2 dA dB Ccc Dcc.
         hfdc (A_key pk) (name pk) (y2_key pk) (S_next pk) = Inr S1 \<and>
         hfdc (B_key pk) (name pk) (y1_key pk) S1 = Inr S2 \<and>
         field_data S2 (dA_dy2_key pk) = Some dA \<and> dA ''cell'' = Some Ccc \<and>
         field_data S2 (dB_dy1_key pk) = Some dB \<and> dB ''cell'' = Some Dcc \<and>
         C = map (dmul (ddiv (Finite 1) h)) Ccc \<and> D = map (dmul (ddiv (Finite 1) h)) Dcc)"
  proof (rule impI)
    assume a: "E_SetOffDiagonals C D \<in>
      set (trace (snd (update_precon hfdc t up h (pk\<lparr>trace := []\<rparr>))))"
    from a update_precon_installed [of C D hfdc t up h "pk\<lparr>trace := []\<rparr>"]
    show "\<exists>S1 S2 dA dB Ccc Dcc.
         hfdc (A_key pk) (name pk) (y2_key pk) (S_next pk) = Inr S1 \<and>
         hfdc (B_key pk) (name pk) (y1_key pk) S1 = Inr S2 \<and>
         field_data S2 (dA_dy2_key pk) = Some dA \<and> dA ''cell'' = Some Ccc \<and>
         field_data S2 (dB_dy1_key pk) = Some dB \<and> dB ''cell'' = Some Dcc \<and>
         C = map (dmul (ddiv (Finite 1) h)) Ccc \<and> D = map (dmul (ddiv (Finite 1) h)) Dcc"
      by (simp add: Scale_def)
  qed
  have p2: "0 < a \<and> normal_range (1 / a) \<and>
    hfdc (A_key pk) (name pk) (y2_key pk) (S_next pk) = Inr T1 \<and>
    hfdc (B_key pk) (name pk) (y1_key pk) T1 = Inr T2 \<and>
    field_data T2 (dA_dy2_key pk) = Some fA \<and> fA ''cell'' = Some cA \<and>
    field_data T2 (dB_dy1_key pk) = Some fB \<and> fB ''cell'' = Some cB \<and>
    list_all (product_in_range (ddiv (Finite 1) (Finite a))) (cA @ cB) \<and>
    E_SetOffDiagonals C1 D1 \<in>
      set (trace (snd (update_precon hfdc t up (Finite a) (pk\<lparr>trace := []\<rparr>)))) \<and>
    E_SetOffDiagonals C2 D2 \<in>
      set (trace (snd (update_precon hfdc t up (Finite (2 * a)) (pk\<lparr>trace := []\<rparr>)))) \<longrightarrow>
      C2 = map (\<lambda>c. ddiv c (Finite 2)) C1 \<and> D2 = map (\<lambda>c. ddiv c (Finite 2)) D1"
  proof (rule impI)
    assume b: "0 < a \<and> normal_range (1 / a) \<and>
      hfdc (A_key pk) (name pk) (y2_key pk) (S_next pk) = Inr T1 \<and>
      hfdc (B_key pk) (name pk) (y1_key pk) T1 = Inr T2 \<and>
      field_data T2 (dA_dy2_key pk) = Some fA \<and> fA ''cell'' = Some cA \<and>
      field_data T2 (dB_dy1_key pk) = Some fB \<and> fB ''cell'' = Some cB \<and>
      list_all (product_in_range (ddiv (Finite 1) (Finite a))) (cA @ cB) \<and>
      E_SetOffDiagonals C1 D1 \<in>
        set (trace (snd (update_precon hfdc t up (Finite a) (pk\<lparr>trace := []\<rparr>)))) \<and>
      E_SetOffDiagonals C2 D2 \<in>
        set (trace (snd (update_precon hfdc t up (Finite (2 * a)) (pk\<lparr>trace := []\<rparr>))))"
    from b update_precon_installed [of C1 D1 hfdc t up "Finite a" "pk\<lparr>trace := []\<rparr>"]
    have 1: "C1 = Scale (ddiv (Finite 1) (Finite a)) cA"
            "D1 = Scale (ddiv (Finite 1) (Finite a)) cB"
      by auto
    from b update_precon_installed [of C2 D2 hfdc t up "Finite (2 * a)" "pk\<lparr>trace := []\<rparr>"]
    have 2: "C2 = Scale (ddiv (Finite 1) (Finite (2 * a))) cA"
            "D2 = Scale (ddiv (Finite 1) (Finite (2 * a))) cB"
      by auto
    from b have r: "0 < a" "normal_range (1 / a)"
      "list_all (product_in_range (ddiv (Finite 1) (Finite a))) cA"
      "list_all (product_in_range (ddiv (Finite 1) (Finite a))) cB"
      by simp_all
    from Scale_half [OF r(1,2,3)] Scale_half [OF r(1,2,4)] 1 2
    show "C2 = map (\<lambda>c. ddiv c (Finite 2)) C1 \<and> D2 = map (\<lambda>c. ddiv c (Finite 2)) D1"
      by simp
  qed
  have p3: "\<not> decoupled pk \<and>
      hfdc (A_key pk) (name pk) (y2_key pk) (S_next pk) = Inr T1 \<and>
      hfdc (B_key pk) (name pk) (y1_key pk) T1 = Inr T2 \<and>
      field_data T2 (dA_dy2_key pk) = Some fA \<and> fA ''cell'' = Some cA \<and>
      field_data T2 (dB_dy1_key pk) = Some fB \<and> fB ''cell'' = Some cB \<and>
      \<not> (out pk \<and> includesVerbLevel (verbosity pk) VERB_EXTREME True) \<and>
      mfd_preconditioner pk = Some m \<longrightarrow>
        E_SetOffDiagonals (map (dmul (ddiv (Finite 1) h)) cA) (map (dmul (ddiv (Finite 1) h)) cB) \<in>
          set (trace (snd (update_precon hfdc t up h (pk\<lparr>trace := []\<rparr>))))"
  proof (rule impI)
    assume c: "\<not> decoupled pk \<and>
      hfdc (A_key pk) (name pk) (y2_key pk) (S_next pk) = Inr T1 \<and>
      hfdc (B_key pk) (name pk) (y1_key pk) T1 = Inr T2 \<and>
      field_data T2 (dA_dy2_key pk) = Some fA \<and> fA ''cell'' = Some cA \<and>
      field_data T2 (dB_dy1_key pk) = Some fB \<and> fB ''cell'' = Some cB \<and>
      \<not> (out pk \<and> includesVerbLevel (verbosity pk) VERB_EXTREME True) \<and>
      mfd_preconditioner pk = Some m"
    from c update_precon_installs [of "pk\<lparr>trace := []\<rparr>" hfdc T1 T2 fA cA fB cB m t up h]
    have "calls_of (update_precon hfdc t up h) (pk\<lparr>trace := []\<rparr>) =
           [E_StrongMPC_update_precon t up h,
            E_HasFieldDerivativeChanged (A_key pk) (name pk) (y2_key pk),
            E_HasFieldDerivativeChanged (B_key pk) (name pk) (y1_key pk),
            E_GetFieldData (dA_dy2_key pk), E_GetFieldData (dB_dy1_key pk),
            E_SetOffDiagonals (map (dmul (ddiv (Finite 1) h)) cA)
                              (map (dmul (ddiv (Finite 1) h)) cB),
            E_ComputeSchurComplement
              (dless (dabs (dsub (time T2) (Finite 30474600))) (to_double 68690.3)),
            E_UpdatePreconditioner]"
      by simp
    then have "trace (snd (update_precon hfdc t up h (pk\<lparr>trace := []\<rparr>))) =
           [E_StrongMPC_update_precon t up h,
            E_HasFieldDerivativeChanged (A_key pk) (name pk) (y2_key pk),
            E_HasFieldDerivativeChanged (B_key pk) (name pk) (y1_key pk),
            E_GetFieldData (dA_dy2_key pk), E_GetFieldData (dB_dy1_key pk),
            E_SetOffDiagonals (map (dmul (ddiv (Finite 1) h)) cA)
                              (map (dmul (ddiv (Finite 1) h)) cB),
            E_ComputeSchurComplement
              (dless (dabs (dsub (time T2) (Finite 30474600))) (to_double 68690.3)),
            E_UpdatePreconditioner]"
      by (simp add: calls_of_def)
    then show "E_SetOffDiagonals (map (dmul (ddiv (Finite 1) h)) cA)
                 (map (dmul (ddiv (Finite 1) h)) cB) \<in>
          set (trace (snd (update_precon hfdc t up h (pk\<lparr>trace := []\<rparr>))))"
      by simp
  qed
  show ?thesis
    by (rule conjI [OF p1 conjI [OF p2 p3]])
qed

text \<open>
  The end-to-end scenario: the run with the step \<open>10\<close> and the run with the step \<open>20\<close>,
  without diagnostics.
\<close>

lemma scenario_update_precon:
  "update_precon idle (Finite 0) [] (Finite 10) scenario_pk =
     (Inr (),
      scenario_pk\<lparr>trace := [E_StrongMPC_update_precon (Finite 0) [] (Finite 10),
        E_HasFieldDerivativeChanged ''water_content'' ''coupled'' ''temperature'',
        E_HasFieldDerivativeChanged ''energy'' ''coupled'' ''pressure'',
        E_GetFieldData ''dwater_content_dtemperature'',
        E_GetFieldData ''denergy_dpressure'',
        E_SetOffDiagonals
          [Finite (1441151880758559 / 2 ^ 57), Finite (1441151880758559 / 2 ^ 57),
           Finite (1441151880758559 / 2 ^ 57)]
          [Finite (1441151880758559 / 2 ^ 56), Finite (1441151880758559 / 2 ^ 56),
           Finite (1441151880758559 / 2 ^ 56)],
        E_ComputeSchurComplement False,
        E_UpdatePreconditioner]\<rparr>)"
  "update_precon idle (Finite 0) [] (Finite 20) scenario_pk =
     (Inr (),
      scenario_pk\<lparr>trace := [E_StrongMPC_update_precon (Finite 0) [] (Finite 20),
        E_HasFieldDerivativeChanged ''water_content'' ''coupled'' ''temperature'',
        E_HasFieldDerivativeChanged ''energy'' ''coupled'' ''pressure'',
        E_GetFieldData ''dwater_content_dtemperature'',
        E_GetFieldData ''denergy_dpressure'',
        E_SetOffDiagonals
          [Finite (1441151880758559 / 2 ^ 58), Finite (1441151880758559 / 2 ^ 58),
           Finite (1441151880758559 / 2 ^ 58)]
          [Finite (1441151880758559 / 2 ^ 57), Finite (1441151880758559 / 2 ^ 57),
           Finite (1441151880758559 / 2 ^ 57)],
        E_ComputeSchurComplement False,
        E_UpdatePreconditioner]\<rparr>)"
  using sample_literals(1,2) sample_reciprocals sample_products sample_window
  by (simp_all add: update_precon_def install_off_diagonals_def then_run_def emit_def
      request_derivative_def read_field_def
      attempt_def returns_def pc_call_def print_def GetFieldData_def ViewComponent_def
      includesVerbLevel_def Scale_def)

lemma scenario_in_range:
  "normal_range (1 / 10)"
  "list_all (product_in_range (ddiv (Finite 1) (Finite 10)))
     ([to_double 0.1, to_double 0.1, to_double 0.1] @
      [to_double 0.2, to_double 0.2, to_double 0.2])"
proof -
  show "normal_range (1 / 10)"
    by (rule normal_rangeI [where k = "- 4"]) (simp_all add: pow2_numeral)
  have "normal_range (3602879701896397 / 2 ^ 55 * (3602879701896397 / 2 ^ 55))"
    by (rule normal_rangeI [where k = "- 7"]) (simp_all add: pow2_numeral)
  moreover have "normal_range (3602879701896397 / 2 ^ 55 * (3602879701896397 / 2 ^ 54))"
    by (rule normal_rangeI [where k = "- 6"]) (simp_all add: pow2_numeral)
  ultimately show "list_all (product_in_range (ddiv (Finite 1) (Finite 10)))
     ([to_double 0.1, to_double 0.1, to_double 0.1] @
      [to_double 0.2, to_double 0.2, to_double 0.2])"
    using sample_literals(1,2) sample_reciprocals(1)
    by (simp add: product_in_range_def)
qed

theorem update_precon_scales_by_reciprocal_witness:
  "(0::real) < 10 \<and> normal_range (1 / 10) \<and>
   list_all (product_in_range (ddiv (Finite 1) (Finite 10)))
     ([to_double 0.1, to_double 0.1, to_double 0.1] @
      [to_double 0.2, to_double 0.2, to_double 0.2]) \<and>
   E_SetOffDiagonals
     [Finite (1441151880758559 / 2 ^ 57), Finite (1441151880758559 / 2 ^ 57),
      Finite (1441151880758559 / 2 ^ 57)]
     [Finite (1441151880758559 / 2 ^ 56), Finite (1441151880758559 / 2 ^ 56),
      Finite (1441151880758559 / 2 ^ 56)] \<in>
     set (trace (snd (update_precon idle (Finite 0) [] (Finite 10) (scenario_pk\<lparr>trace := []\<rparr>)))) \<and>
   E_SetOffDiagonals
     [Finite (1441151880758559 / 2 ^ 58), Finite (1441151880758559 / 2 ^ 58),
      Finite (1441151880758559 / 2 ^ 58)]
     [Finite (1441151880758559 / 2 ^ 57), Finite (1441151880758559 / 2 ^ 57),
      Finite (1441151880758559 / 2 ^ 57)] \<in>
     set (trace (snd (update_precon idle (Finite 0) [] (Finite (2 * 10))
                        (scenario_pk\<lparr>trace := []\<rparr>)))) \<and>
   [Finite (1441151880758559 / 2 ^ 58), Finite (1441151880758559 / 2 ^ 58),
    Finite (1441151880758559 / 2 ^ 58)] =
     map (\<lambda>c. ddiv c (Finite 2))
       [Finite (1441151880758559 / 2 ^ 57), Finite (1441151880758559 / 2 ^ 57),
        Finite (1441151880758559 / 2 ^ 57)] \<and>
   [Finite (1441151880758559 / 2 ^ 57), Finite (1441151880758559 / 2 ^ 57),
    Finite (1441151880758559 / 2 ^ 57)] =
     map (dmul (ddiv (Finite 1) (Finite 10))) [to_double 0.1, to_double 0.1, to_double 0.1]"
proof -
  let ?C1 = "[Finite (1441151880758559 / 2 ^ 57), Finite (1441151880758559 / 2 ^ 57),
      Finite (1441151880758559 / 2 ^ 57)]"
  let ?D1 = "[Finite (1441151880758559 / 2 ^ 56), Finite (1441151880758559 / 2 ^ 56),
      Finite (1441151880758559 / 2 ^ 56)]"
  let ?C2 = "[Finite (1441151880758559 / 2 ^ 58), Finite (1441151880758559 / 2 ^ 58),
      Finite (1441151880758559 / 2 ^ 58)]"
  let ?D2 = "[Finite (1441151880758559 / 2 ^ 57), Finite (1441151880758559 / 2 ^ 57),
      Finite (1441151880758559 / 2 ^ 57)]"
  have r1: "E_SetOffDiagonals ?C1 ?D1 \<in>
     set (trace (snd (update_precon idle (Finite 0) [] (Finite 10) (scenario_pk\<lparr>trace := []\<rparr>))))"
    using scenario_update_precon(1) by simp
  have r2: "E_SetOffDiagonals ?C2 ?D2 \<in>
     set (trace (snd (update_precon idle (Finite 0) [] (Finite (2 * 10))
                        (scenario_pk\<lparr>trace := []\<rparr>))))"
    using scenario_update_precon(2) by simp
  note t = update_precon_scales_by_reciprocal [where a = 10 and h = "Finite 10"
      and hfdc = idle and t = "Finite 0" and up = "[]" and pk = scenario_pk
      and C = ?C1 and D = ?D1
      and ?C1.0 = ?C1 and ?D1.0 = ?D1 and ?C2.0 = ?C2 and ?D2.0 = ?D2
      and ?T1.0 = scenario_State and ?T2.0 = scenario_State
      and fA = "[''cell'' \<mapsto> [to_double 0.1, to_double 0.1, to_double 0.1]]"
      and cA = "[to_double 0.1, to_double 0.1, to_double 0.1]"
      and fB = "[''cell'' \<mapsto> [to_double 0.2, to_double 0.2, to_double 0.2]]"
      and cB = "[to_double 0.2, to_double 0.2, to_double 0.2]"
      and m = "\<lparr>pc_plist = [], pc_mesh = Some \<lparr>cell_faces = [[0, 1], [1, 2], [2, 3]]\<rparr>\<rparr>"]
  from t r1 r2 scenario_in_range
  have h: "?C2 = map (\<lambda>c. ddiv c (Finite 2)) ?C1"
    by simp
  from t r1 have e: "?C1 =
     map (dmul (ddiv (Finite 1) (Finite 10))) [to_double 0.1, to_double 0.1, to_double 0.1]"
    by auto
  from r1 r2 scenario_in_range h e show ?thesis
    by simp
qed

text \<open>
  Claim C2 as it is stated does not hold of the code. In the end-to-end scenario of the
  specification (derivatives \<^verbatim>\<open>0.1\<close> and \<^verbatim>\<open>0.2\<close>, step \<open>10\<close>) the installed values
  are \<open>0.010000000000000002\<close> and \<open>0.020000000000000004\<close>; the derivatives divided by
  the step are the doubles \<open>0.01\<close> and \<open>0.02\<close>.
\<close>

theorem update_precon_divides_counterexample:
  "E_SetOffDiagonals
     [Finite (1441151880758559 / 2 ^ 57), Finite (1441151880758559 / 2 ^ 57),
      Finite (1441151880758559 / 2 ^ 57)]
     [Finite (1441151880758559 / 2 ^ 56), Finite (1441151880758559 / 2 ^ 56),
      Finite (1441151880758559 / 2 ^ 56)] \<in>
     set (trace (snd (update_precon idle (Finite 0) [] (Finite 10) (scenario_pk\<lparr>trace := []\<rparr>)))) \<and>
   field_data scenario_State ''dwater_content_dtemperature'' =
     Some [''cell'' \<mapsto> [to_double 0.1, to_double 0.1, to_double 0.1]] \<and>
   field_data scenario_State ''denergy_dpressure'' =
     Some [''cell'' \<mapsto> [to_double 0.2, to_double 0.2, to_double 0.2]] \<and>
   map (\<lambda>x. ddiv x (Finite 10)) [to_double 0.1, to_double 0.1, to_double 0.1] =
     [Finite (5764607523034235 / 2 ^ 59), Finite (5764607523034235 / 2 ^ 59),
      Finite (5764607523034235 / 2 ^ 59)] \<and>
   map (\<lambda>x. ddiv x (Finite 10)) [to_double 0.2, to_double 0.2, to_double 0.2] =
     [Finite (5764607523034235 / 2 ^ 58), Finite (5764607523034235 / 2 ^ 58),
      Finite (5764607523034235 / 2 ^ 58)] \<and>
   [Finite (1441151880758559 / 2 ^ 57), Finite (1441151880758559 / 2 ^ 57),
    Finite (1441151880758559 / 2 ^ 57)] \<noteq>
     map (\<lambda>x. ddiv x (Finite 10)) [to_double 0.1, to_double 0.1, to_double 0.1] \<and>
   [Finite (1441151880758559 / 2 ^ 56), Finite (1441151880758559 / 2 ^ 56),
    Finite (1441151880758559 / 2 ^ 56)] \<noteq>
     map (\<lambda>x. ddiv x (Finite 10)) [to_double 0.2, to_double 0.2, to_double 0.2]"
  using scenario_update_precon(1) sample_literals(1,2) sample_quotients(1,2)
  by simp

subsection \<open>Reasoning about methods\<close>

lemma then_run_Inr:
  "(then_run m f pk = (Inr y, pk')) = (\<exists>x pk1. m pk = (Inr x, pk1) \<and> f x pk1 = (Inr y, pk'))"
  by (auto simp: then_run_def split: prod.splits sum.splits)

lemma then_run_Inl:
  "(then_run m f pk = (Inl e, pk')) =
     (m pk = (Inl e, pk') \<or> (\<exists>x pk1. m pk = (Inr x, pk1) \<and> f x pk1 = (Inl e, pk')))"
  by (auto simp: then_run_def split: prod.splits sum.splits)

lemma prim_eq:
  "(from_plist g pk = (r, pk')) = (g (plist pk) = r \<and> pk' = pk)"
  "(assign h pk = (ru, pk')) = (ru = Inr () \<and> pk' = h pk)"
  "(emit ev pk = (ru, pk')) = (ru = Inr () \<and> pk' = pk\<lparr>trace := trace pk @ [ev]\<rparr>)"
  "(print l pk = (ru, pk')) = (ru = Inr () \<and> pk' = pk\<lparr>printed := printed pk @ [l]\<rparr>)"
  "(attempt r0 pk = (r, pk')) = (r0 = r \<and> pk' = pk)"
  "(returns x pk = (r, pk')) = (r = Inr x \<and> pk' = pk)"
  "(throw e pk = (r, pk')) = (r = Inl e \<and> pk' = pk)"
  by (auto simp: from_plist_def assign_def emit_def print_def attempt_def returns_def throw_def)


subsection \<open>\<^verbatim>\<open>setup\<close>: the debug cell arrays\<close>

lemma setup_keys_names:
  assumes "setup_keys S pk = (Inr (), pk')"
  shows "dA_dy2_key pk' = ''d'' @ A_key pk' @ ''_d'' @ y2_key pk' \<and>
         dB_dy1_key pk' = ''d'' @ B_key pk' @ ''_d'' @ y1_key pk' \<and>
         get_string (plist pk) ''conserved quantity A'' = Inr (A_key pk') \<and>
         get_string (plist pk) ''conserved quantity B'' = Inr (B_key pk') \<and>
         get_string (plist pk) ''primary variable A'' = Inr (y1_key pk') \<and>
         get_string (plist pk) ''primary variable B'' = Inr (y2_key pk') \<and>
         plist pk' = plist pk"
  using assms
  by (auto simp: setup_keys_def then_run_Inr prim_eq)


lemma setup_keys_ok:
  assumes "get_bool_default (plist pk) ''decoupled'' False = Inr d"
    and "get_string (plist pk) ''conserved quantity A'' = Inr a"
    and "get_string (plist pk) ''conserved quantity B'' = Inr b"
    and "get_string (plist pk) ''primary variable A'' = Inr x1"
    and "get_string (plist pk) ''primary variable B'' = Inr x2"
    and "get_string (plist pk) ''mesh key'' = Inr mk"
    and "GetMesh S mk = Inr m"
  shows "setup_keys S pk =
     (Inr (), pk\<lparr>decoupled := d, A_key := a, B_key := b, y1_key := x1, y2_key := x2,
                dA_dy2_key := ''d'' @ a @ ''_d'' @ x2, dB_dy1_key := ''d'' @ b @ ''_d'' @ x1,
                mesh := Some m, trace := trace pk @ [E_GetMesh mk]\<rparr>)"
  using assms
  by (simp add: setup_keys_def then_run_def from_plist_def assign_def emit_def attempt_def)

lemma get_errors:
  "get_string pl k = Inl e \<Longrightarrow> e = ConfigurationError k"
  "get_bool_default pl k d = Inl e \<Longrightarrow> e = ConfigurationError k"
  "get_IntArray pl k = Inl e \<Longrightarrow> e = ConfigurationError k"
  "get_sublist pl k = Inl e \<Longrightarrow> e = ConfigurationError k"
  by (auto simp: get_string_def get_bool_default_def get_IntArray_def get_sublist_def
      split: option.splits ParameterEntry.splits)

lemma element_error: "element v i = Inl e \<Longrightarrow> e = OutOfBounds"
  by (auto simp: element_def split: if_splits)

lemma make_dcvo_frame:
  "(snd (make_dcvo rs pk))\<lparr>dcvo := x\<rparr> = pk\<lparr>dcvo := x\<rparr>"
  by (induction rs arbitrary: pk)
     (simp_all add: then_run_def from_plist_def assign_def returns_def split: sum.splits)

lemma make_dcvo_error:
  "make_dcvo rs pk = (Inl e, pk') \<Longrightarrow> e = ConfigurationError ''VerboseObject''"
  by (induction rs arbitrary: pk)
     (auto simp: then_run_Inl prim_eq dest!: get_errors)

lemma make_dcvo_ok:
  assumes "get_sublist (plist pk) ''VerboseObject'' = Inr sub"
  shows "make_dcvo rs pk =
     (Inr (), pk\<lparr>dcvo := dcvo pk @
        map (\<lambda>dcr. VerboseObject (mesh pk) (name pk)
               [(''VerboseObject'', PList (set_entry sub ''write on rank'' (PInt dcr)))]) rs\<rparr>)"
  using assms
  by (induction rs arbitrary: pk)
     (simp_all add: then_run_def from_plist_def assign_def returns_def)


lemma get_IntArray_Inr:
  "(get_IntArray pl k = Inr x) = (map_of pl k = Some (PIntArray x))"
  by (auto simp: get_IntArray_def split: option.splits ParameterEntry.splits)

lemma pc_call_eq:
  "(pc_call ev pk = (r, pk')) =
     (case mfd_preconditioner pk of
        None \<Rightarrow> r = Inl NullPointer \<and> pk' = pk
      | Some m \<Rightarrow> r = Inr () \<and> pk' = pk\<lparr>trace := trace pk @ [ev]\<rparr>)"
  by (auto simp: pc_call_def emit_def split: option.splits)

lemma setup_debug_cells_unequal:
  assumes "map_of (plist pk) ''debug cells'' = Some (PIntArray cells)"
    and "map_of (plist pk) ''debug cell ranks'' = Some (PIntArray ranks)"
    and "length cells \<noteq> length ranks"
  shows "setup_debug_cells pk =
     (Inl (ConfigurationError ''Debug cell and debug cell ranks must be equal length.''),
      pk\<lparr>dc := cells\<rparr>)"
  using assms
  by (simp add: setup_debug_cells_def isParameter_def get_IntArray_def then_run_def
      from_plist_def assign_def throw_def)

lemma setup_debug_cells_equal:
  assumes "map_of (plist pk) ''debug cells'' = Some (PIntArray cells)"
    and "map_of (plist pk) ''debug cell ranks'' = Some (PIntArray ranks)"
    and "length cells = length ranks"
    and "get_sublist (plist pk) ''VerboseObject'' = Inr sub"
  shows "setup_debug_cells pk =
     (Inr (), pk\<lparr>dc := cells, dcvo := dcvo pk @
        map (\<lambda>dcr. VerboseObject (mesh pk) (name pk)
               [(''VerboseObject'', PList (set_entry sub ''write on rank'' (PInt dcr)))]) ranks\<rparr>)"
proof -
  have "make_dcvo ranks (pk\<lparr>dc := cells\<rparr>) =
     (Inr (), pk\<lparr>dc := cells, dcvo := dcvo pk @
        map (\<lambda>dcr. VerboseObject (mesh pk) (name pk)
               [(''VerboseObject'', PList (set_entry sub ''write on rank'' (PInt dcr)))]) ranks\<rparr>)"
    using make_dcvo_ok [of "pk\<lparr>dc := cells\<rparr>" sub ranks] assms(4) by simp
  then show ?thesis
    using assms(1-3)
    by (simp add: setup_debug_cells_def isParameter_def get_IntArray_def then_run_def
        from_plist_def assign_def throw_def)
qed


lemma make_dcvo_keys:
  assumes "make_dcvo rs pk = (r, pk')"
  shows "A_key pk' = A_key pk \<and> B_key pk' = B_key pk \<and> y1_key pk' = y1_key pk \<and>
         y2_key pk' = y2_key pk \<and> dA_dy2_key pk' = dA_dy2_key pk \<and>
         dB_dy1_key pk' = dB_dy1_key pk"
proof -
  have "pk'\<lparr>dcvo := []\<rparr> = pk\<lparr>dcvo := []\<rparr>"
    using make_dcvo_frame [where rs = rs and pk = pk and x = "[]"] assms by simp
  then have "A_key (pk'\<lparr>dcvo := []\<rparr>) = A_key (pk\<lparr>dcvo := []\<rparr>)"
    and "B_key (pk'\<lparr>dcvo := []\<rparr>) = B_key (pk\<lparr>dcvo := []\<rparr>)"
    and "y1_key (pk'\<lparr>dcvo := []\<rparr>) = y1_key (pk\<lparr>dcvo := []\<rparr>)"
    and "y2_key (pk'\<lparr>dcvo := []\<rparr>) = y2_key (pk\<lparr>dcvo := []\<rparr>)"
    and "dA_dy2_key (pk'\<lparr>dcvo := []\<rparr>) = dA_dy2_key (pk\<lparr>dcvo := []\<rparr>)"
    and "dB_dy1_key (pk'\<lparr>dcvo := []\<rparr>) = dB_dy1_key (pk\<lparr>dcvo := []\<rparr>)"
    by simp_all
  then show ?thesis by simp
qed




lemma setup_preconditioner_ok:
  assumes "get_sublist (plist pk) ''Coupled PC'' = Inr pcl" and "2 \<le> length (sub_pks pk)"
  shows "fst (setup_preconditioner pk) = Inr () \<and>
         mfd_preconditioner (snd (setup_preconditioner pk)) =
           Some \<lparr>pc_plist = pcl, pc_mesh = mesh pk\<rparr> \<and>
         dc (snd (setup_preconditioner pk)) = dc pk \<and>
         dcvo (snd (setup_preconditioner pk)) = dcvo pk"
proof (cases "isSublist (plist pk) ''Coupled Solver''")
  from assms(2) have ne: "sub_pks pk \<noteq> []" "1 < length (sub_pks pk)"
    by auto
  case True
  then obtain sl where sl: "get_sublist (plist pk) ''Coupled Solver'' = Inr sl"
    by (auto simp: isSublist_def get_sublist_def split: option.splits ParameterEntry.splits)
  show ?thesis using assms True sl ne
    by (simp add: setup_preconditioner_def then_run_def from_plist_def emit_def assign_def
        attempt_def element_def pc_call_def)
next
  case False
  from assms(2) have ne: "sub_pks pk \<noteq> []" "1 < length (sub_pks pk)"
    by auto
  show ?thesis using assms False ne
    by (simp add: setup_preconditioner_def then_run_def from_plist_def emit_def assign_def
        attempt_def element_def pc_call_def)
qed



lemma setup_debug_cells_error:
  assumes "setup_debug_cells pk =
     (Inl (ConfigurationError ''Debug cell and debug cell ranks must be equal length.''), pk')"
  shows "\<exists>cells ranks. map_of (plist pk) ''debug cells'' = Some (PIntArray cells) \<and>
           map_of (plist pk) ''debug cell ranks'' = Some (PIntArray ranks) \<and>
           length cells \<noteq> length ranks"
  using assms
  by (auto simp: setup_debug_cells_def then_run_Inl then_run_Inr prim_eq get_IntArray_Inr
      split: if_splits dest: make_dcvo_error get_errors)

lemma setup_debug_cells_keys:
  assumes "setup_debug_cells pk = (Inr u, pk')"
  shows "A_key pk' = A_key pk \<and> B_key pk' = B_key pk \<and> y1_key pk' = y1_key pk \<and>
         y2_key pk' = y2_key pk \<and> dA_dy2_key pk' = dA_dy2_key pk \<and>
         dB_dy1_key pk' = dB_dy1_key pk"
  using assms
  by (auto simp: setup_debug_cells_def then_run_Inr prim_eq
      split: if_splits dest!: make_dcvo_keys)

lemma setup_preconditioner_keys:
  assumes "setup_preconditioner pk = (Inr u, pk')"
  shows "A_key pk' = A_key pk \<and> B_key pk' = B_key pk \<and> y1_key pk' = y1_key pk \<and>
         y2_key pk' = y2_key pk \<and> dA_dy2_key pk' = dA_dy2_key pk \<and>
         dB_dy1_key pk' = dB_dy1_key pk"
  using assms
  apply (simp add: setup_preconditioner_def then_run_Inr prim_eq pc_call_eq)
  apply (elim exE conjE)
  apply (simp split: if_splits add: then_run_Inr prim_eq)
  apply (elim exE conjE disjE)
  apply simp_all
  done

lemma setup_preconditioner_error:
  assumes "setup_preconditioner pk = (Inl e, pk')"
  shows "e \<noteq> ConfigurationError ''Debug cell and debug cell ranks must be equal length.''"
  using assms
  apply (simp add: setup_preconditioner_def then_run_Inl then_run_Inr prim_eq pc_call_eq)
  apply (elim disjE exE conjE)
  apply (simp_all add: then_run_Inl then_run_Inr prim_eq split: if_splits)
  apply (auto dest!: get_errors element_error)
  done


lemma setup_returns:
  assumes "get_bool_default (plist pk) ''decoupled'' False = Inr d"
    and "get_string (plist pk) ''conserved quantity A'' = Inr a"
    and "get_string (plist pk) ''conserved quantity B'' = Inr b"
    and "get_string (plist pk) ''primary variable A'' = Inr x1"
    and "get_string (plist pk) ''primary variable B'' = Inr x2"
    and "get_string (plist pk) ''mesh key'' = Inr mk"
    and "GetMesh S mk = Inr m"
    and "map_of (plist pk) ''debug cells'' = Some (PIntArray cells)"
    and "map_of (plist pk) ''debug cell ranks'' = Some (PIntArray ranks)"
    and eq: "length cells = length ranks"
    and v: "get_sublist (plist pk) ''VerboseObject'' = Inr vo_sub"
    and c: "get_sublist (plist pk) ''Coupled PC'' = Inr pc_sublist"
    and n: "2 \<le> length (sub_pks pk)"
  shows "fst (MPCCoupledCells_setup S pk) = Inr () \<and>
        mfd_preconditioner (snd (MPCCoupledCells_setup S pk)) =
          Some \<lparr>pc_plist = pc_sublist, pc_mesh = Some m\<rparr> \<and>
        dc (snd (MPCCoupledCells_setup S pk)) = cells \<and>
        length (dcvo (snd (MPCCoupledCells_setup S pk))) = length (dcvo pk) + length ranks"
proof -
  let ?pk1 = "pk\<lparr>trace := trace pk @ [E_StrongMPC_setup]\<rparr>"
  let ?pk2 = "?pk1\<lparr>decoupled := d, A_key := a, B_key := b, y1_key := x1, y2_key := x2,
                dA_dy2_key := ''d'' @ a @ ''_d'' @ x2, dB_dy1_key := ''d'' @ b @ ''_d'' @ x1,
                mesh := Some m, trace := trace ?pk1 @ [E_GetMesh mk]\<rparr>"
  let ?pk3 = "?pk2\<lparr>dc := cells, dcvo := dcvo ?pk2 @
      map (\<lambda>dcr. VerboseObject (mesh ?pk2) (name ?pk2)
             [(''VerboseObject'', PList (set_entry vo_sub ''write on rank'' (PInt dcr)))]) ranks\<rparr>"
  have k: "setup_keys S ?pk1 = (Inr (), ?pk2)"
    using setup_keys_ok [of ?pk1 d a b x1 x2 mk S m] assms(1-7) by simp
  have s: "MPCCoupledCells_setup S pk =
             then_run setup_debug_cells (\<lambda>_. setup_preconditioner) ?pk2"
    by (simp add: MPCCoupledCells_setup_def then_run_def emit_def k)
  have c2: "map_of (plist ?pk2) ''debug cells'' = Some (PIntArray cells)"
    and r2: "map_of (plist ?pk2) ''debug cell ranks'' = Some (PIntArray ranks)"
    using assms(8,9) by simp_all
  have v2: "get_sublist (plist ?pk2) ''VerboseObject'' = Inr vo_sub"
    using v by simp
  have dbg: "setup_debug_cells ?pk2 = (Inr (), ?pk3)"
    using setup_debug_cells_equal [OF c2 r2 eq v2] .
  have s3: "MPCCoupledCells_setup S pk = setup_preconditioner ?pk3"
    using s dbg by (simp add: then_run_def)
  have "get_sublist (plist ?pk3) ''Coupled PC'' = Inr pc_sublist"
    and "2 \<le> length (sub_pks ?pk3)"
    using c n by simp_all
  from setup_preconditioner_ok [OF this] show ?thesis
    unfolding s3 by simp
qed

text \<open>
  Claim C6. Let the configuration hold the mode, the four keys and the mesh key in good
  form, the mesh be registered, and both a debug-cell array and a debug-cell-rank array be
  supplied. If the two arrays differ in length, \<^verbatim>\<open>setup\<close> throws the configuration
  error, and at the throw no coupled matrix has been built: the two preconditioner pointers
  are what they were and the only calls made are the base-class setup and the mesh lookup.
  If the arrays have equal length, \<^verbatim>\<open>setup\<close> never throws that error; and when the
  remaining entries are well-formed too it returns normally with the coupled matrix built
  and one verbose object per rank.
\<close>

theorem setup_checks_debug_array_lengths:
  assumes "get_bool_default (plist pk) ''decoupled'' False = Inr d"
    and "get_string (plist pk) ''conserved quantity A'' = Inr a"
    and "get_string (plist pk) ''conserved quantity B'' = Inr b"
    and "get_string (plist pk) ''primary variable A'' = Inr x1"
    and "get_string (plist pk) ''primary variable B'' = Inr x2"
    and "get_string (plist pk) ''mesh key'' = Inr mk"
    and "GetMesh S mk = Inr m"
    and "map_of (plist pk) ''debug cells'' = Some (PIntArray cells)"
    and "map_of (plist pk) ''debug cell ranks'' = Some (PIntArray ranks)"
  shows
    "(length cells \<noteq> length ranks \<longrightarrow>
        fst (MPCCoupledCells_setup S pk) =
          Inl (ConfigurationError ''Debug cell and debug cell ranks must be equal length.'') \<and>
        mfd_preconditioner (snd (MPCCoupledCells_setup S pk)) = mfd_preconditioner pk \<and>
        linsolve_preconditioner (snd (MPCCoupledCells_setup S pk)) = linsolve_preconditioner pk \<and>
        trace (snd (MPCCoupledCells_setup S pk)) = trace pk @ [E_StrongMPC_setup, E_GetMesh mk]) \<and>
     (length cells = length ranks \<longrightarrow>
        fst (MPCCoupledCells_setup S pk) \<noteq>
          Inl (ConfigurationError ''Debug cell and debug cell ranks must be equal length.'')) \<and>
     (length cells = length ranks \<and>
      get_sublist (plist pk) ''VerboseObject'' = Inr vo_sub \<and>
      get_sublist (plist pk) ''Coupled PC'' = Inr pc_sublist \<and>
      2 \<le> length (sub_pks pk) \<longrightarrow>
        fst (MPCCoupledCells_setup S pk) = Inr () \<and>
        mfd_preconditioner (snd (MPCCoupledCells_setup S pk)) =
          Some \<lparr>pc_plist = pc_sublist, pc_mesh = Some m\<rparr> \<and>
        dc (snd (MPCCoupledCells_setup S pk)) = cells \<and>
        length (dcvo (snd (MPCCoupledCells_setup S pk))) = length (dcvo pk) + length ranks)"
proof -
  let ?msg = "ConfigurationError ''Debug cell and debug cell ranks must be equal length.''"
  let ?pk1 = "pk\<lparr>trace := trace pk @ [E_StrongMPC_setup]\<rparr>"
  let ?pk2 = "?pk1\<lparr>decoupled := d, A_key := a, B_key := b, y1_key := x1, y2_key := x2,
                dA_dy2_key := ''d'' @ a @ ''_d'' @ x2, dB_dy1_key := ''d'' @ b @ ''_d'' @ x1,
                mesh := Some m, trace := trace ?pk1 @ [E_GetMesh mk]\<rparr>"
  have k: "setup_keys S ?pk1 = (Inr (), ?pk2)"
    using setup_keys_ok [of ?pk1 d a b x1 x2 mk S m] assms(1-7) by simp
  have s: "MPCCoupledCells_setup S pk =
             then_run setup_debug_cells (\<lambda>_. setup_preconditioner) ?pk2"
    by (simp add: MPCCoupledCells_setup_def then_run_def emit_def k)
  have c2: "map_of (plist ?pk2) ''debug cells'' = Some (PIntArray cells)"
    and r2: "map_of (plist ?pk2) ''debug cell ranks'' = Some (PIntArray ranks)"
    using assms(8,9) by simp_all
  have p1: "MPCCoupledCells_setup S pk = (Inl ?msg, ?pk2\<lparr>dc := cells\<rparr>)"
    if ne: "length cells \<noteq> length ranks"
    using setup_debug_cells_unequal [OF c2 r2 ne] s by (simp add: then_run_def)
  have p2: "fst (MPCCoupledCells_setup S pk) \<noteq> Inl ?msg" if eq: "length cells = length ranks"
  proof
    assume f: "fst (MPCCoupledCells_setup S pk) = Inl ?msg"
    define pk' where "pk' = snd (MPCCoupledCells_setup S pk)"
    with f have "MPCCoupledCells_setup S pk = (Inl ?msg, pk')"
      by (simp add: prod_eq_iff)
    with s have "then_run setup_debug_cells (\<lambda>_. setup_preconditioner) ?pk2 = (Inl ?msg, pk')"
      by simp
    then consider "setup_debug_cells ?pk2 = (Inl ?msg, pk')"
      | pk3 where "setup_preconditioner pk3 = (Inl ?msg, pk')"
      by (auto simp: then_run_Inl)
    then show False
    proof cases
      case 1
      from setup_debug_cells_error [OF 1] c2 r2 eq show False by auto
    next
      case 2
      from setup_preconditioner_error [OF 2] show False by simp
    qed
  qed
  have p3: "fst (MPCCoupledCells_setup S pk) = Inr () \<and>
        mfd_preconditioner (snd (MPCCoupledCells_setup S pk)) =
          Some \<lparr>pc_plist = pc_sublist, pc_mesh = Some m\<rparr> \<and>
        dc (snd (MPCCoupledCells_setup S pk)) = cells \<and>
        length (dcvo (snd (MPCCoupledCells_setup S pk))) = length (dcvo pk) + length ranks"
    if "length cells = length ranks"
      and "get_sublist (plist pk) ''VerboseObject'' = Inr vo_sub"
      and "get_sublist (plist pk) ''Coupled PC'' = Inr pc_sublist"
      and "2 \<le> length (sub_pks pk)"
    using setup_returns [OF assms that] .
  from p1 p2 p3 show ?thesis by simp
qed


theorem setup_checks_debug_array_lengths_witness:
  "fst (MPCCoupledCells_setup scenario_State (fresh_pk (scenario_plist [0]))) =
     Inl (ConfigurationError ''Debug cell and debug cell ranks must be equal length.'') \<and>
   mfd_preconditioner (snd (MPCCoupledCells_setup scenario_State (fresh_pk (scenario_plist [0]))))
     = None \<and>
   trace (snd (MPCCoupledCells_setup scenario_State (fresh_pk (scenario_plist [0]))))
     = [E_StrongMPC_setup, E_GetMesh ''domain''] \<and>
   fst (MPCCoupledCells_setup scenario_State (fresh_pk (scenario_plist [0, 1]))) = Inr () \<and>
   mfd_preconditioner (snd (MPCCoupledCells_setup scenario_State (fresh_pk (scenario_plist [0, 1]))))
     = Some \<lparr>pc_plist = [], pc_mesh = Some \<lparr>cell_faces = [[0, 1], [1, 2], [2, 3]]\<rparr>\<rparr> \<and>
   dc (snd (MPCCoupledCells_setup scenario_State (fresh_pk (scenario_plist [0, 1])))) = [0, 2]"
  using
    setup_checks_debug_array_lengths [where pk = "fresh_pk (scenario_plist [0])" and d = False
      and a = "''water_content''" and b = "''energy''" and ?x1.0 = "''pressure''"
      and ?x2.0 = "''temperature''" and mk = "''domain''" and S = scenario_State
      and m = "\<lparr>cell_faces = [[0, 1], [1, 2], [2, 3]]\<rparr>" and cells = "[0, 2]" and ranks = "[0]"]
    setup_checks_debug_array_lengths [where pk = "fresh_pk (scenario_plist [0, 1])" and d = False
      and a = "''water_content''" and b = "''energy''" and ?x1.0 = "''pressure''"
      and ?x2.0 = "''temperature''" and mk = "''domain''" and S = scenario_State
      and m = "\<lparr>cell_faces = [[0, 1], [1, 2], [2, 3]]\<rparr>" and cells = "[0, 2]" and ranks = "[0, 1]"
      and vo_sub = "[]" and pc_sublist = "[]"]
  by (simp add: get_bool_default_def get_string_def get_sublist_def GetMesh_def)

subsection \<open>Naming and ordering of the derivative Fields\<close>

lemma setup_names:
  assumes "fst (MPCCoupledCells_setup S pk) = Inr ()"
  shows "dA_dy2_key (snd (MPCCoupledCells_setup S pk)) =
           ''d'' @ A_key (snd (MPCCoupledCells_setup S pk)) @ ''_d'' @
           y2_key (snd (MPCCoupledCells_setup S pk)) \<and>
         dB_dy1_key (snd (MPCCoupledCells_setup S pk)) =
           ''d'' @ B_key (snd (MPCCoupledCells_setup S pk)) @ ''_d'' @
           y1_key (snd (MPCCoupledCells_setup S pk)) \<and>
         get_string (plist pk) ''conserved quantity A'' =
           Inr (A_key (snd (MPCCoupledCells_setup S pk))) \<and>
         get_string (plist pk) ''conserved quantity B'' =
           Inr (B_key (snd (MPCCoupledCells_setup S pk))) \<and>
         get_string (plist pk) ''primary variable A'' =
           Inr (y1_key (snd (MPCCoupledCells_setup S pk))) \<and>
         get_string (plist pk) ''primary variable B'' =
           Inr (y2_key (snd (MPCCoupledCells_setup S pk)))"
proof -
  define pk' where "pk' = snd (MPCCoupledCells_setup S pk)"
  with assms have "MPCCoupledCells_setup S pk = (Inr (), pk')"
    by (simp add: prod_eq_iff)
  then obtain pb pc where
    k: "setup_keys S (pk\<lparr>trace := trace pk @ [E_StrongMPC_setup]\<rparr>) = (Inr (), pb)" and
    d: "setup_debug_cells pb = (Inr (), pc)" and
    p: "setup_preconditioner pc = (Inr (), pk')"
    by (auto simp: MPCCoupledCells_setup_def then_run_Inr prim_eq)
  from setup_keys_names [OF k] setup_debug_cells_keys [OF d] setup_preconditioner_keys [OF p]
  show ?thesis
    unfolding pk'_def [symmetric] by simp
qed

lemma install_off_diagonals_grows:
  assumes "install_off_diagonals h a b pk = (r, pk')"
  shows "\<exists>new. trace pk' = trace pk @ new"
  using assms
  by (auto simp: install_off_diagonals_def then_run_def emit_def read_field_def
      attempt_def returns_def pc_call_def print_def
      split: sum.splits if_splits option.splits prod.splits
      dest!: print_derivatives_trace)

lemma install_off_diagonals_trace:
  "trace (snd (install_off_diagonals h a b pk)) =
     trace pk @ calls_of (install_off_diagonals h a b) pk"
proof -
  obtain r pk' where e: "install_off_diagonals h a b pk = (r, pk')"
    by (cases "install_off_diagonals h a b pk")
  from install_off_diagonals_grows [OF e] obtain new where "trace pk' = trace pk @ new"
    by blast
  with e show ?thesis by (simp add: calls_of_def)
qed

lemma update_precon_trace_shape:
  "trace (snd (update_precon hfdc t up h (pk\<lparr>trace := []\<rparr>))) = [E_StrongMPC_update_precon t up h] \<or>
   trace (snd (update_precon hfdc t up h (pk\<lparr>trace := []\<rparr>))) =
     [E_StrongMPC_update_precon t up h,
      E_HasFieldDerivativeChanged (A_key pk) (name pk) (y2_key pk)] \<or>
   (\<exists>rest. trace (snd (update_precon hfdc t up h (pk\<lparr>trace := []\<rparr>))) =
      E_StrongMPC_update_precon t up h #
      E_HasFieldDerivativeChanged (A_key pk) (name pk) (y2_key pk) #
      E_HasFieldDerivativeChanged (B_key pk) (name pk) (y1_key pk) # rest)"
  by (simp add: update_precon_def then_run_def emit_def request_derivative_def read_field_def
      attempt_def returns_def install_off_diagonals_trace
      split: sum.splits prod.splits)

lemma read_after_requests:
  assumes "tr = [s] \<or> tr = [s, a] \<or> (\<exists>rest. tr = s # a # b # rest)"
    and "tr = pre @ E_GetFieldData k # post"
    and "s \<noteq> E_GetFieldData k" and "a \<noteq> E_GetFieldData k" and "b \<noteq> E_GetFieldData k"
  shows "a \<in> set pre \<and> b \<in> set pre"
  using assms by (auto simp: Cons_eq_append_conv append_eq_Cons_conv)

lemma update_precon_read_after_request:
  "(trace (snd (update_precon hfdc t up h (pk\<lparr>trace := []\<rparr>))) = pre @ E_GetFieldData (dA_dy2_key pk) # post \<longrightarrow>
      E_HasFieldDerivativeChanged (A_key pk) (name pk) (y2_key pk) \<in> set pre) \<and>
   (trace (snd (update_precon hfdc t up h (pk\<lparr>trace := []\<rparr>))) = pre @ E_GetFieldData (dB_dy1_key pk) # post \<longrightarrow>
      E_HasFieldDerivativeChanged (B_key pk) (name pk) (y1_key pk) \<in> set pre)"
proof (rule conjI; rule impI)
  assume e: "trace (snd (update_precon hfdc t up h (pk\<lparr>trace := []\<rparr>))) =
    pre @ E_GetFieldData (dA_dy2_key pk) # post"
  from read_after_requests [OF update_precon_trace_shape e]
  show "E_HasFieldDerivativeChanged (A_key pk) (name pk) (y2_key pk) \<in> set pre"
    by simp
next
  assume e: "trace (snd (update_precon hfdc t up h (pk\<lparr>trace := []\<rparr>))) =
    pre @ E_GetFieldData (dB_dy1_key pk) # post"
  from read_after_requests [OF update_precon_trace_shape e]
  show "E_HasFieldDerivativeChanged (B_key pk) (name pk) (y1_key pk) \<in> set pre"
    by simp
qed

text \<open>
  The two coupling-derivative Fields are handled as the specification asks. When
  \<^verbatim>\<open>setup\<close> returns, the key of each is \<open>d\<close>, the conserved quantity, \<open>_d\<close> and the
  primary variable of the other sub-system, all four as the configuration names them. In
  \<^verbatim>\<open>update_precon\<close>, started from an empty call history, every read of the Field
  \<open>dA_dy2_key\<close> comes after the request \<^verbatim>\<open>HasFieldDerivativeChanged\<close> for the derivative
  of \<open>A_key\<close> with respect to \<open>y2_key\<close>, and every read of \<open>dB_dy1_key\<close> after the
  request for \<open>B_key\<close> and \<open>y1_key\<close>; in decoupled mode neither is requested nor read.
\<close>

lemma coupling_derivatives_requested_before_read:
  "(fst (MPCCoupledCells_setup S pk) = Inr () \<longrightarrow>
      dA_dy2_key (snd (MPCCoupledCells_setup S pk)) =
        ''d'' @ A_key (snd (MPCCoupledCells_setup S pk)) @ ''_d'' @
        y2_key (snd (MPCCoupledCells_setup S pk)) \<and>
      dB_dy1_key (snd (MPCCoupledCells_setup S pk)) =
        ''d'' @ B_key (snd (MPCCoupledCells_setup S pk)) @ ''_d'' @
        y1_key (snd (MPCCoupledCells_setup S pk)) \<and>
      get_string (plist pk) ''conserved quantity A'' =
        Inr (A_key (snd (MPCCoupledCells_setup S pk))) \<and>
      get_string (plist pk) ''conserved quantity B'' =
        Inr (B_key (snd (MPCCoupledCells_setup S pk))) \<and>
      get_string (plist pk) ''primary variable A'' =
        Inr (y1_key (snd (MPCCoupledCells_setup S pk))) \<and>
      get_string (plist pk) ''primary variable B'' =
        Inr (y2_key (snd (MPCCoupledCells_setup S pk)))) \<and>
   (trace (snd (update_precon hfdc t up h (q\<lparr>trace := []\<rparr>))) =
      pre @ E_GetFieldData (dA_dy2_key q) # post \<longrightarrow>
      E_HasFieldDerivativeChanged (A_key q) (name q) (y2_key q) \<in> set pre) \<and>
   (trace (snd (update_precon hfdc t up h (q\<lparr>trace := []\<rparr>))) =
      pre @ E_GetFieldData (dB_dy1_key q) # post \<longrightarrow>
      E_HasFieldDerivativeChanged (B_key q) (name q) (y1_key q) \<in> set pre) \<and>
   (decoupled q \<longrightarrow>
      trace (snd (update_precon hfdc t up h (q\<lparr>trace := []\<rparr>))) =
        [E_StrongMPC_update_precon t up h])"
proof -
  have d: "trace (snd (update_precon hfdc t up h (q\<lparr>trace := []\<rparr>))) =
        [E_StrongMPC_update_precon t up h]" if "decoupled q"
    using that by (simp add: update_precon_def then_run_def emit_def returns_def)
  from setup_names [of S pk] update_precon_read_after_request [of hfdc t up h q pre post] d
  show ?thesis by blast
qed


subsection \<open>\<^verbatim>\<open>precon\<close>: the two paths\<close>

text \<open>
  In decoupled mode the correction is what the base class returns; in coupled mode it is
  what the linear operator returns, whether or not the diagnostics print.
\<close>

lemma print_faces_frame:
  "(snd (print_faces l u i fs pk))\<lparr>printed := x\<rparr> = pk\<lparr>printed := x\<rparr>"
  by (induction fs arbitrary: pk)
     (simp_all add: then_run_def attempt_def print_def returns_def split: sum.splits)

lemma print_faces_trace:
  "print_faces l u i fs pk = (r, pk') \<Longrightarrow> pk'\<lparr>printed := x\<rparr> = pk\<lparr>printed := x\<rparr>"
  using print_faces_frame [where l = l and u = u and i = i and fs = fs and pk = pk and x = x]
  by simp

lemma print_cells_frame:
  "(snd (print_cells hdr l0 l1 u cs pk))\<lparr>printed := x\<rparr> = pk\<lparr>printed := x\<rparr>"
proof (induction cs arbitrary: pk)
  case Nil
  show ?case by (simp add: returns_def)
next
  case (Cons c0 cs)
  show ?case
    using Cons.IH
    by (auto simp: then_run_def attempt_def print_def
        split: sum.splits prod.splits dest!: print_faces_trace [where x = x])
qed


lemma print_cells_trace:
  assumes "print_cells hdr l0 l1 u cs pk = (r, pk')"
  shows "trace pk' = trace pk \<and> linsolve_preconditioner pk' = linsolve_preconditioner pk"
proof -
  have "pk'\<lparr>printed := []\<rparr> = pk\<lparr>printed := []\<rparr>"
    using print_cells_frame [where hdr = hdr and ?l0.0 = l0 and ?l1.0 = l1 and u = u and cs = cs
        and pk = pk and x = "[]"] assms by simp
  then have "trace (pk'\<lparr>printed := []\<rparr>) = trace (pk\<lparr>printed := []\<rparr>)"
    and "linsolve_preconditioner (pk'\<lparr>printed := []\<rparr>) =
         linsolve_preconditioner (pk\<lparr>printed := []\<rparr>)"
    by simp_all
  then show ?thesis by simp
qed

lemma precon_decoupled:
  assumes "decoupled pk"
  shows "precon StrongMPC_precon ApplyInverse u pk =
     (StrongMPC_precon (trace pk @ [E_StrongMPC_precon u]) u,
      pk\<lparr>trace := trace pk @ [E_StrongMPC_precon u]\<rparr>)"
  using assms by (simp add: precon_def then_run_def emit_def attempt_def)

lemma precon_coupled:
  assumes "\<not> decoupled pk" and "precon StrongMPC_precon ApplyInverse u pk = (Inr Pu, pk')"
  shows "ApplyInverse (trace pk @ [E_ApplyInverse u]) u = Inr Pu \<and>
         trace pk' = trace pk @ [E_ApplyInverse u]"
  using assms
  apply (simp add: precon_def then_run_Inr prim_eq)
  apply (elim exE conjE)
  apply (auto simp: then_run_Inr prim_eq throw_def
         split: if_splits option.splits dest!: print_cells_trace)
  done

subsection \<open>Diagnostics\<close>

text \<open>
  Claim C7 asks that the diagnostics never change the numerical results. In the sample
  configuration the State holds the two coupling derivatives but no Field
  \<open>dsaturation_ice_dpressure\<close>. With the output stream present and extreme verbosity,
  \<^verbatim>\<open>update_precon\<close> throws on the diagnostic read and installs nothing; with the
  stream absent, the same call installs the blocks (the doubles
  \<open>0.010000000000000002\<close> and \<open>0.020000000000000004\<close>) and updates the preconditioner.
\<close>

theorem update_precon_diagnostics_change_result:
  "update_precon (\<lambda>key request wrt S. Inr S) (Finite 0) [] (Finite 10)
       (scenario_pk\<lparr>verbosity := VERB_EXTREME\<rparr>) =
     (Inl (UnknownKeyError ''dsaturation_ice_dpressure''),
      scenario_pk\<lparr>verbosity := VERB_EXTREME,
        trace := [E_StrongMPC_update_precon (Finite 0) [] (Finite 10),
          E_HasFieldDerivativeChanged ''water_content'' ''coupled'' ''temperature'',
          E_HasFieldDerivativeChanged ''energy'' ''coupled'' ''pressure'',
          E_GetFieldData ''dwater_content_dtemperature'',
          E_GetFieldData ''denergy_dpressure'',
          E_GetFieldData ''dsaturation_ice_dpressure'']\<rparr>) \<and>
   update_precon (\<lambda>key request wrt S. Inr S) (Finite 0) [] (Finite 10)
       (scenario_pk\<lparr>out := False, verbosity := VERB_EXTREME\<rparr>) =
     (Inr (),
      scenario_pk\<lparr>out := False, verbosity := VERB_EXTREME,
        trace := [E_StrongMPC_update_precon (Finite 0) [] (Finite 10),
          E_HasFieldDerivativeChanged ''water_content'' ''coupled'' ''temperature'',
          E_HasFieldDerivativeChanged ''energy'' ''coupled'' ''pressure'',
          E_GetFieldData ''dwater_content_dtemperature'',
          E_GetFieldData ''denergy_dpressure'',
          E_SetOffDiagonals
            [Finite (1441151880758559 / 2 ^ 57), Finite (1441151880758559 / 2 ^ 57),
             Finite (1441151880758559 / 2 ^ 57)]
            [Finite (1441151880758559 / 2 ^ 56), Finite (1441151880758559 / 2 ^ 56),
             Finite (1441151880758559 / 2 ^ 56)],
          E_ComputeSchurComplement False,
          E_UpdatePreconditioner]\<rparr>)"
  using sample_literals(1,2) sample_reciprocals sample_products sample_window
  by (simp add: update_precon_def install_off_diagonals_def then_run_def emit_def
      request_derivative_def read_field_def
      attempt_def returns_def pc_call_def print_def GetFieldData_def ViewComponent_def
      includesVerbLevel_def Scale_def)

end
